theory Spec2Isabelle
  imports Main "HOL-Library.Sublist"
begin

section \<open>JavaScript strings\<close>

text \<open>
  A JavaScript string is modelled as a \<^typ>\<open>string\<close>: each \<^typ>\<open>char\<close> stands for one
  code unit in the range 0..255.  The generator only ever inspects ASCII characters
  (the regular expressions use \<open>\w\<close>, \<open>[A-Za-z0-9_]\<close> and literal ASCII text), so the
  only place where larger code units would matter is the white-space class, which
  below contains the white-space code units up to 255 (TAB, LF, VT, FF, CR, SPACE
  and NBSP).
\<close>

definition isSpace :: "char \<Rightarrow> bool" where
  "isSpace c = (c \<in> set [CHR 0x09, CHR 0x0A, CHR 0x0B, CHR 0x0C, CHR 0x0D, CHR 0x20, CHR 0xA0])"

definition isUpper :: "char \<Rightarrow> bool" where
  "isUpper c = (let n = (of_char c :: nat) in 65 \<le> n \<and> n \<le> 90)"

definition isLower :: "char \<Rightarrow> bool" where
  "isLower c = (let n = (of_char c :: nat) in 97 \<le> n \<and> n \<le> 122)"

definition isDigit :: "char \<Rightarrow> bool" where
  "isDigit c = (let n = (of_char c :: nat) in 48 \<le> n \<and> n \<le> 57)"

text \<open>\<open>\w\<close>\<close>
definition isWord :: "char \<Rightarrow> bool" where
  "isWord c = (isUpper c \<or> isLower c \<or> isDigit c \<or> c = CHR ''_'')"

text \<open>\<open>[\w:]\<close>\<close>
definition isWordOrColon :: "char \<Rightarrow> bool" where
  "isWordOrColon c = (isWord c \<or> c = CHR '':'')"

text \<open>\<open>[^)]\<close>\<close>
definition notCloseParen :: "char \<Rightarrow> bool" where
  "notCloseParen c = (c \<noteq> CHR '')'')"

text \<open>\<open>String.prototype.toLowerCase\<close> on one code unit (ASCII letters only).\<close>
definition toLowerChar :: "char \<Rightarrow> char" where
  "toLowerChar c = (if isUpper c then char_of ((of_char c :: nat) + 32) else c)"

definition toLowerCase :: "string \<Rightarrow> string" where
  "toLowerCase s = map toLowerChar s"

text \<open>\<open>String.prototype.trim\<close>\<close>
definition trim :: "string \<Rightarrow> string" where
  "trim s = rev (dropWhile isSpace (rev (dropWhile isSpace s)))"

text \<open>\<open>String.prototype.split\<close> with a one-character separator: the empty string
  splits into one empty piece.\<close>
fun split :: "char \<Rightarrow> string \<Rightarrow> string list" where
  "split sep [] = [[]]"
| "split sep (c # cs) =
     (if c = sep then [] # split sep cs
      else (case split sep cs of
              [] \<Rightarrow> [[c]]
            | p # ps \<Rightarrow> (c # p) # ps))"

text \<open>\<open>Array.prototype.join\<close>\<close>
fun join :: "string \<Rightarrow> string list \<Rightarrow> string" where
  "join sep [] = []"
| "join sep [x] = x"
| "join sep (x # y # ys) = x @ sep @ join sep (y # ys)"

text \<open>\<open>String.prototype.startsWith\<close>\<close>
definition startsWith :: "string \<Rightarrow> string \<Rightarrow> bool" where
  "startsWith s p = (take (length p) s = p)"

text \<open>\<open>String.prototype.substr(start)\<close> and \<open>substr(start, len)\<close> for non-negative
  arguments.\<close>
definition substr :: "string \<Rightarrow> nat \<Rightarrow> string" where
  "substr s start = drop start s"

definition substr2 :: "string \<Rightarrow> nat \<Rightarrow> nat \<Rightarrow> string" where
  "substr2 s start len = take len (drop start s)"

text \<open>Decimal rendering of an array index inside a template literal.\<close>
definition digitChar :: "nat \<Rightarrow> char" where
  "digitChar d = char_of (48 + d)"

function showNat :: "nat \<Rightarrow> string" where
  "showNat n = (if n < 10 then [digitChar n] else showNat (n div 10) @ [digitChar (n mod 10)])"
  by pat_completeness auto
termination
  by (relation "measure id") auto

declare showNat.simps [simp del]

section \<open>Regular expressions\<close>

text \<open>
  The three regular expressions of the generator use literals, optional items and
  greedy repetitions of a character class, with named groups.  \<open>rmatch\<close> lists, in the
  priority order of a backtracking matcher, every way the expression can match at the
  start of the text: each result is the captured groups and the rest of the text.
  \<open>String.prototype.match\<close> (no \<open>g\<close> flag) takes the first result at the leftmost start
  position that has one.
\<close>

datatype rx =
    Lit string
  | Star "char \<Rightarrow> bool"
  | Plus "char \<Rightarrow> bool"
  | Opt rx
  | Seq rx rx
  | Group string rx

type_synonym groups = "string \<rightharpoonup> string"

text \<open>Rests of the text after a greedy \<open>[class]*\<close>: longest repetition first.\<close>
fun starRests :: "(char \<Rightarrow> bool) \<Rightarrow> string \<Rightarrow> string list" where
  "starRests p [] = [[]]"
| "starRests p (c # cs) = (if p c then starRests p cs @ [c # cs] else [c # cs])"

fun rmatch :: "rx \<Rightarrow> groups \<times> string \<Rightarrow> (groups \<times> string) list" where
  "rmatch (Lit l) (g, s) = (if take (length l) s = l then [(g, drop (length l) s)] else [])"
| "rmatch (Star p) (g, s) = map (\<lambda>r. (g, r)) (starRests p s)"
| "rmatch (Plus p) (g, s) =
     (case s of
        [] \<Rightarrow> []
      | c # cs \<Rightarrow> if p c then map (\<lambda>r. (g, r)) (starRests p cs) else [])"
| "rmatch (Opt r) (g, s) = rmatch r (g, s) @ [(g, s)]"
| "rmatch (Seq r1 r2) (g, s) = concat (map (\<lambda>st. rmatch r2 st) (rmatch r1 (g, s)))"
| "rmatch (Group name r) (g, s) =
     map (\<lambda>(g', s'). (g'(name \<mapsto> take (length s - length s') s), s')) (rmatch r (g, s))"

fun rsearch :: "rx \<Rightarrow> string \<Rightarrow> groups option" where
  "rsearch r [] = (case rmatch r (Map.empty, []) of [] \<Rightarrow> None | (g, _) # _ \<Rightarrow> Some g)"
| "rsearch r (c # cs) =
     (case rmatch r (Map.empty, c # cs) of [] \<Rightarrow> rsearch r cs | (g, _) # _ \<Rightarrow> Some g)"

text \<open>The named groups that take part in every match of an expression.\<close>
fun definedGroups :: "rx \<Rightarrow> string set" where
  "definedGroups (Lit l) = {}"
| "definedGroups (Star p) = {}"
| "definedGroups (Plus p) = {}"
| "definedGroups (Opt r) = {}"
| "definedGroups (Seq r1 r2) = definedGroups r1 \<union> definedGroups r2"
| "definedGroups (Group name r) = insert name (definedGroups r)"

definition seqs :: "rx list \<Rightarrow> rx" where
  "seqs rs = foldr Seq rs (Lit [])"

text \<open>\<open>/\/\/\s+CLASS:\s+(?<className>\w+)/\<close>\<close>
definition classNameRegex :: rx where
  "classNameRegex =
     seqs [Lit ''//'', Plus isSpace, Lit ''CLASS:'', Plus isSpace, Group ''className'' (Plus isWord)]"

text \<open>\<open>/\/\/\s+PROP:\s+(?<className>\w+)/\<close>\<close>
definition propNameRegex :: rx where
  "propNameRegex =
     seqs [Lit ''//'', Plus isSpace, Lit ''PROP:'', Plus isSpace, Group ''className'' (Plus isWord)]"

text \<open>\<open>/\/\/\s+TODO:\s+(virtual\s+)?(?<returnType>[\w:]+)\s+\&?\*?\s*(?<methodName>[A-Za-z0-9_]+)[(](?<args>[^)]*)\)/\<close>\<close>
definition sigRegex :: rx where
  "sigRegex =
     seqs [Lit ''//'', Plus isSpace, Lit ''TODO:'', Plus isSpace,
           Opt (Seq (Lit ''virtual'') (Plus isSpace)),
           Group ''returnType'' (Plus isWordOrColon),
           Plus isSpace, Opt (Lit ''&''), Opt (Lit ''*''), Star isSpace,
           Group ''methodName'' (Plus isWord),
           Lit ''('', Group ''args'' (Star notCloseParen), Lit '')'']"

section \<open>Values of the generator\<close>

text \<open>
  The values that are thrown, caught, returned and printed: strings, the two result
  objects \<open>{type: 'ok', methodDeclaration, napiInit, methodBody, tsBody}\<close> and
  \<open>{type: 'failed', message}\<close>, \<open>Error\<close> objects made by \<open>new Error(message)\<close>, and the
  \<open>TypeError\<close> that the engine raises when a property of \<open>undefined\<close> is read (it carries
  the name of that property).  A field of the ok-result that holds \<open>null\<close> is \<open>None\<close>.
  The \<open>message\<close> of a failed-result is any value: \<open>expandMethod\<close> stores the caught
  value there.
\<close>

datatype jsval =
    Str string
  | OkResult "string option" "string option" "string option" "string option"
  | FailedResult jsval
  | JsError string
  | JsTypeError string

text \<open>The conversion to a string that a template literal applies to \<open>${value}\<close>.\<close>
fun toString :: "jsval \<Rightarrow> string" where
  "toString (Str s) = s"
| "toString (OkResult d n b t) = ''[object Object]''"
| "toString (FailedResult m) = ''[object Object]''"
| "toString (JsError m) = (if m = [] then ''Error'' else ''Error: '' @ m)"
| "toString (JsTypeError p) =
     ''TypeError: Cannot read properties of undefined (reading '' @ [CHR 0x27] @ p @ [CHR 0x27] @ '')''"

text \<open>Reading the property \<open>type\<close> of a value: only the two result objects have one.\<close>
fun resultType :: "jsval \<Rightarrow> string option" where
  "resultType (OkResult d n b t) = Some ''ok''"
| "resultType (FailedResult m) = Some ''failed''"
| "resultType (Str s) = None"
| "resultType (JsError m) = None"
| "resultType (JsTypeError p) = None"

record CppArgument =
  arg_type :: string
  arg_name :: string

record MethodSignature =
  sig_args :: "CppArgument list"
  sig_methodName :: string
  sig_returnType :: string

section \<open>Type registry\<close>

definition SUPPORTED_ARG_TYPES :: "string list" where
  "SUPPORTED_ARG_TYPES =
     [''GLenum'', ''GLfloat'', ''GLint'', ''GLuint'', ''GLsizei'', ''GLclampf'', ''GLboolean'',
      ''const QModelIndex'', ''int'', ''const QPoint'', ''QPoint'', ''QItemSelectionModel::SelectionFlags'',
      ''QAbstractItemView::CursorAction'', ''QAbstractItemView::ScrollHint'', ''const QString'',
      ''QHeaderView::ResizeMode'', ''Qt::SortOrder'', ''bool'', ''Qt::Alignment'', ''Qt::Orientation'',
      ''uint'', ''Qt::TextElideMode'', ''QSizePolicy::Policy'', ''QWidget'', ''QComboBox::InsertPolicy'',
      ''QComboBox::SizeAdjustPolicy'', ''const QSize'', ''QIcon::Mode'', ''QIcon::State'', ''const QPixmap'',
      ''QPainter'', ''Qt::AspectRatioMode'', ''const QSizeF'', ''qreal'', ''QAction'', ''QMenu'', ''const QIcon'',
      ''Qt::Corner'']"

definition isSupportedArgType :: "string \<Rightarrow> bool" where
  "isSupportedArgType argName = (argName \<in> set SUPPORTED_ARG_TYPES)"

definition DEREFERENCE_TYPES :: "string list" where
  "DEREFERENCE_TYPES =
     [''const QModelIndex'', ''const QPoint'', ''const QSize'', ''const QPixmap'', ''QPainter'',
      ''const QSizeF'', ''QPoint'', ''const QIcon'']"

definition TS_WRAPPER_TYPES :: "string list" where
  "TS_WRAPPER_TYPES =
     [''const QModelIndex'', ''QPainter'', ''const QPixmap'', ''QAction'', ''QMenu'', ''QPoint'',
      ''const QIcon'', ''const QPoint'']"

definition SUPPORTED_RETURN_TYPES :: "string list" where
  "SUPPORTED_RETURN_TYPES =
     [''void'', ''GLfloat'', ''GLenum'', ''GLboolean'', ''GLint'', ''GLuint'', ''GLclampf'',
      ''GLsizei'', ''bool'', ''QModelIndex'', ''QModelIndexList'', ''Qt::Alignment'', ''int'',
      ''Qt::Orientation'', ''Qt::SortOrder'', ''QHeaderView::ResizeMode'', ''QRect'',
      ''QString'', ''QSize'', ''QComboBox::InsertPolicy'', ''QComboBox::SizeAdjustPolicy'',
      ''Qt::ContextMenuPolicy'', ''QIcon'', ''Qt::WindowFlags'', ''QWidget'', ''QSizeF'',
      ''qreal'', ''QAction'', ''QMenu'']"

definition isSupportedReturnType :: "string \<Rightarrow> bool" where
  "isSupportedReturnType returnName = (returnName \<in> set SUPPORTED_RETURN_TYPES)"

section \<open>Signature parser\<close>

text \<open>The body of the loop of \<open>parseArgs\<close>: the argument that one part of the list
  contributes, if any.\<close>
definition parseArg :: "string \<Rightarrow> CppArgument option" where
  "parseArg part =
     (let argParts = split CHR '' '' (trim part);
          type = join '' '' (butlast argParts);
          name = last argParts;
          name = (if startsWith name ''&'' \<or> startsWith name ''*'' then substr name 1 else name)
      in if name \<noteq> [] then Some \<lparr>arg_type = type, arg_name = name\<rparr> else None)"

fun parseArgsLoop :: "string list \<Rightarrow> CppArgument list \<Rightarrow> CppArgument list" where
  "parseArgsLoop [] result = result"
| "parseArgsLoop (part # parts) result =
     parseArgsLoop parts (case parseArg part of None \<Rightarrow> result | Some a \<Rightarrow> result @ [a])"

definition parseArgs :: "string \<Rightarrow> CppArgument list" where
  "parseArgs args = parseArgsLoop (split CHR '','' args) []"

text \<open>\<open>parseMethodSignature\<close> throws a failed-result (\<open>Inl\<close>) or returns the signature.\<close>
definition parseMethodSignature :: "string \<Rightarrow> jsval + MethodSignature" where
  "parseMethodSignature signature =
     (case rsearch sigRegex signature of
        None \<Rightarrow>
          Inl (FailedResult (Str (''Signature didn't match regex for '' @ [CHR 0x27] @ signature @ [CHR 0x27] @ ''.'')))
      | Some found \<Rightarrow>
          let returnTypeString = the (found ''returnType'') in
          if \<not> isSupportedReturnType returnTypeString
          then Inl (FailedResult (Str (''Return type '' @ [CHR 0x27] @ returnTypeString @ [CHR 0x27]
                     @ '' is unknown for signature '' @ [CHR 0x27] @ signature @ [CHR 0x27] @ ''.'')))
          else
            let args = parseArgs (the (found ''args'')) in
            (case find (\<lambda>arg. \<not> isSupportedArgType (arg_type arg)) args of
               Some arg \<Rightarrow>
                 Inl (FailedResult (Str (''Argument type '' @ [CHR 0x27] @ arg_type arg @ [CHR 0x27]
                        @ '' is unknown for signature '' @ [CHR 0x27] @ signature @ [CHR 0x27] @ ''.'')))
             | None \<Rightarrow>
                 Inr \<lparr>sig_args = args, sig_methodName = the (found ''methodName''),
                      sig_returnType = returnTypeString\<rparr>))"

section \<open>Native emitter\<close>

text \<open>The \<open>switch (arg.type)\<close> of the argument loop: the statement appended for argument
  \<open>i\<close>, or the thrown \<open>Error\<close>.\<close>
definition cppArgumentStatement :: "nat \<Rightarrow> CppArgument \<Rightarrow> jsval + string" where
  "cppArgumentStatement i arg =
     (let t = arg_type arg; n = arg_name arg in
      if t = ''GLboolean'' \<or> t = ''bool''
      then Inr (''  '' @ t @ '' '' @ n @ '' = info['' @ showNat i @ ''].As<Napi::Boolean>().Value();'')
      else if t = ''GLclampf'' \<or> t = ''GLfloat'' \<or> t = ''qreal''
      then Inr (''  '' @ t @ '' '' @ n @ '' = info['' @ showNat i @ ''].As<Napi::Number>().FloatValue();'')
      else if t = ''GLenum'' \<or> t = ''GLint'' \<or> t = ''GLsizei'' \<or> t = ''int''
      then Inr (''  '' @ t @ '' '' @ n @ '' = info['' @ showNat i @ ''].As<Napi::Number>().Int32Value();'')
      else if t = ''GLuint'' \<or> t = ''uint''
      then Inr (''  '' @ t @ '' '' @ n @ '' = info['' @ showNat i @ ''].As<Napi::Number>().Uint32Value();'')
      else if t = ''const QModelIndex''
      then Inr (''  QModelIndexWrap* '' @ n @ ''Wrap = Napi::ObjectWrap<QModelIndexWrap>::Unwrap(info['' @ showNat i @ ''].As<Napi::Object>());\<newline>  QModelIndex* '' @ n @ '' = '' @ n @ ''Wrap->getInternalInstance();'')
      else if t = ''const QPoint''
      then Inr (''  QPointWrap* '' @ n @ ''Wrap = Napi::ObjectWrap<QPointWrap>::Unwrap(info['' @ showNat i @ ''].As<Napi::Object>());\<newline>  QPoint* '' @ n @ '' = '' @ n @ ''Wrap->getInternalInstance();'')
      else if t = ''const QSize''
      then Inr (''  QSizeWrap* '' @ n @ ''Wrap = Napi::ObjectWrap<QSizeWrap>::Unwrap(info['' @ showNat i @ ''].As<Napi::Object>());\<newline>  QSize* '' @ n @ '' = '' @ n @ ''Wrap->getInternalInstance();'')
      else if t = ''const QSizeF''
      then Inr (''  QSizeFWrap* '' @ n @ ''Wrap = Napi::ObjectWrap<QSizeFWrap>::Unwrap(info['' @ showNat i @ ''].As<Napi::Object>());\<newline>  QSizeF* '' @ n @ '' = '' @ n @ ''Wrap->getInternalInstance();'')
      else if t = ''QItemSelectionModel::SelectionFlags''
      then Inr (''  QItemSelectionModel::SelectionFlags '' @ n @ '' = static_cast<QItemSelectionModel::SelectionFlags>(info['' @ showNat i @ ''].As<Napi::Number>().Int32Value());'')
      else if t = ''QAbstractItemView::CursorAction''
      then Inr (''  QAbstractItemView::CursorAction '' @ n @ '' = static_cast<QAbstractItemView::CursorAction>(info['' @ showNat i @ ''].As<Napi::Number>().Int32Value());'')
      else if t = ''QAbstractItemView::ScrollHint''
      then Inr (''  QAbstractItemView::ScrollHint '' @ n @ '' = static_cast<QAbstractItemView::ScrollHint>(info['' @ showNat i @ ''].As<Napi::Number>().Int32Value());'')
      else if t = ''const QString''
      then Inr (''  std::string '' @ n @ ''NapiText = info['' @ showNat i @ ''].As<Napi::String>().Utf8Value();\<newline>  QString '' @ n @ '' = QString::fromUtf8('' @ n @ ''NapiText.c_str());'')
      else if t = ''QHeaderView::ResizeMode''
      then Inr (''  QHeaderView::ResizeMode '' @ n @ '' = static_cast<QHeaderView::ResizeMode>(info['' @ showNat i @ ''].As<Napi::Number>().Int32Value());'')
      else if t = ''Qt::SortOrder''
      then Inr (''  Qt::SortOrder '' @ n @ '' = static_cast<Qt::SortOrder>(info['' @ showNat i @ ''].As<Napi::Number>().Int32Value());'')
      else if t = ''QComboBox::InsertPolicy''
      then Inr (''  QComboBox::InsertPolicy '' @ n @ '' = static_cast<QComboBox::InsertPolicy>(info['' @ showNat i @ ''].As<Napi::Number>().Int32Value());'')
      else if t = ''QComboBox::SizeAdjustPolicy''
      then Inr (''  QComboBox::SizeAdjustPolicy '' @ n @ '' = static_cast<QComboBox::SizeAdjustPolicy>(info['' @ showNat i @ ''].As<Napi::Number>().Int32Value());'')
      else if t = ''Qt::TextElideMode''
      then Inr (''  Qt::TextElideMode '' @ n @ '' = static_cast<Qt::TextElideMode>(info['' @ showNat i @ ''].As<Napi::Number>().Int32Value());'')
      else if t = ''Qt::Alignment''
      then Inr (''  Qt::Alignment '' @ n @ '' = static_cast<Qt::Alignment>(info['' @ showNat i @ ''].As<Napi::Number>().Int32Value());'')
      else if t = ''Qt::Orientation''
      then Inr (''  Qt::Orientation '' @ n @ '' = static_cast<Qt::Orientation>(info['' @ showNat i @ ''].As<Napi::Number>().Int32Value());'')
      else if t = ''Qt::AspectRatioMode''
      then Inr (''  Qt::AspectRatioMode '' @ n @ '' = static_cast<Qt::AspectRatioMode>(info['' @ showNat i @ ''].As<Napi::Number>().Int32Value());'')
      else if t = ''QSizePolicy::Policy''
      then Inr (''  QSizePolicy::Policy '' @ n @ '' = static_cast<QSizePolicy::Policy>(info['' @ showNat i @ ''].As<Napi::Number>().Int32Value());'')
      else if t = ''QWidget''
      then Inr (''  Napi::Object '' @ n @ ''WidgetObject = info['' @ showNat i @ ''].As<Napi::Object>();\<newline>    NodeWidgetWrap* '' @ n @ ''WidgetWrap =\<newline>        Napi::ObjectWrap<NodeWidgetWrap>::Unwrap('' @ n @ ''WidgetObject);\<newline>    QWidget *'' @ n @ '' = '' @ n @ ''WidgetWrap->getInternalInstance();'')
      else if t = ''QIcon::Mode''
      then Inr (''  QIcon::Mode '' @ n @ '' = static_cast<QIcon::Mode>(info['' @ showNat i @ ''].As<Napi::Number>().Int32Value());'')
      else if t = ''QIcon::State''
      then Inr (''  QIcon::State '' @ n @ '' = static_cast<QIcon::State>(info['' @ showNat i @ ''].As<Napi::Number>().Int32Value());'')
      else if t = ''const QPixmap''
      then Inr (''  QPixmapWrap* '' @ n @ ''Wrap = Napi::ObjectWrap<QPixmapWrap>::Unwrap(info['' @ showNat i @ ''].As<Napi::Object>());\<newline>    QPixmap* '' @ n @ '' = '' @ n @ ''Wrap->getInternalInstance();'')
      else if t = ''QPainter''
      then Inr (''  QPainterWrap* '' @ n @ ''Wrap = Napi::ObjectWrap<QPainterWrap>::Unwrap(info['' @ showNat i @ ''].As<Napi::Object>());\<newline>    QPainter* '' @ n @ '' = '' @ n @ ''Wrap->getInternalInstance();'')
      else if t = ''QAction''
      then Inr (''  QActionWrap* '' @ n @ ''Wrap = Napi::ObjectWrap<QActionWrap>::Unwrap(info['' @ showNat i @ ''].As<Napi::Object>());\<newline>    QAction* '' @ n @ '' = '' @ n @ ''Wrap->getInternalInstance();'')
      else if t = ''QMenu''
      then Inr (''  QMenuWrap* '' @ n @ ''Wrap = Napi::ObjectWrap<QMenuWrap>::Unwrap(info['' @ showNat i @ ''].As<Napi::Object>());\<newline>    QMenu* '' @ n @ '' = '' @ n @ ''Wrap->getInternalInstance();'')
      else if t = ''const QIcon''
      then Inr (''  QIconWrap* '' @ n @ ''Wrap = Napi::ObjectWrap<QIconWrap>::Unwrap(info['' @ showNat i @ ''].As<Napi::Object>());\<newline>    QIcon* '' @ n @ '' = '' @ n @ ''Wrap->getInternalInstance();'')
      else if t = ''Qt::Corner''
      then Inr (''  Qt::Corner '' @ n @ '' = static_cast<Qt::Corner>(info['' @ showNat i @ ''].As<Napi::Number>().Int32Value());'')
      else Inl (JsError (''formatCppMethodBody(): Unexpected arg type '' @ [CHR 0x27] @ t @ [CHR 0x27] @ '' while processing C++ body.'')))"

fun cppArgumentLoop :: "nat \<Rightarrow> CppArgument list \<Rightarrow> string \<Rightarrow> jsval + string" where
  "cppArgumentLoop i [] methodBody = Inr methodBody"
| "cppArgumentLoop i (arg # args) methodBody =
     (case cppArgumentStatement i arg of
        Inl e \<Rightarrow> Inl e
      | Inr statement \<Rightarrow> cppArgumentLoop (Suc i) args (methodBody @ statement @ ''\<newline>''))"

text \<open>The first \<open>switch (returnType)\<close>: the declaration of the result variable.\<close>
definition cppResultDeclaration :: "string \<Rightarrow> string" where
  "cppResultDeclaration returnType =
     (
      if returnType = ''void''
      then (''  '')
      else if returnType = ''QAction'' \<or> returnType = ''QMenu''
      then (''  '' @ returnType @ ''* result = '')
      else (''  '' @ returnType @ '' result = ''))"

text \<open>The function mapped over the arguments to build the invocation.\<close>
definition cppInvocationArgument :: "CppArgument \<Rightarrow> string" where
  "cppInvocationArgument arg =
     (if arg_type arg \<in> set DEREFERENCE_TYPES then ''*'' @ arg_name arg else arg_name arg)"

text \<open>The second \<open>switch (returnType)\<close>: the conversion of the result.\<close>
definition cppReturnStatement :: "string \<Rightarrow> jsval + string" where
  "cppReturnStatement returnType =
     (
      if returnType = ''void''
      then Inr (''  return env.Null();'')
      else if returnType = ''int'' \<or> returnType = ''GLclampf'' \<or> returnType = ''GLfloat'' \<or> returnType = ''GLenum'' \<or> returnType = ''GLint'' \<or> returnType = ''GLuint'' \<or> returnType = ''GLsizei'' \<or> returnType = ''qreal''
      then Inr (''  return Napi::Number::New(env, result);'')
      else if returnType = ''Qt::Alignment'' \<or> returnType = ''Qt::Orientation'' \<or> returnType = ''QHeaderView::ResizeMode'' \<or> returnType = ''Qt::SortOrder'' \<or> returnType = ''QComboBox::InsertPolicy'' \<or> returnType = ''QComboBox::SizeAdjustPolicy''
      then Inr (''  return Napi::Number::New(env, static_cast<uint>(result));'')
      else if returnType = ''GLboolean'' \<or> returnType = ''bool''
      then Inr (''  return Napi::Boolean::New(env, result);'')
      else if returnType = ''QModelIndex''
      then Inr (''  auto resultInstance = QModelIndexWrap::constructor.New(\<newline>    {Napi::External<QModelIndex>::New(env, new QModelIndex(result))});\<newline>  return resultInstance;'')
      else if returnType = ''QModelIndexList''
      then Inr (''  Napi::Array resultArrayNapi = Napi::Array::New(env, result.size());\<newline>  for (int i = 0; i < result.size(); i++) {\<newline>    resultArrayNapi[i] = QModelIndexWrap::constructor.New({Napi::External<QModelIndex>::New(env, new QModelIndex(result[i]))});\<newline>  }\<newline>  return resultArrayNapi;'')
      else if returnType = ''QRect''
      then Inr (''  auto resultInstance = QRectWrap::constructor.New(\<newline>      {Napi::External<QRect>::New(env, new QRect(result))});\<newline>    return resultInstance;'')
      else if returnType = ''QSize''
      then Inr (''  auto resultInstance = QSizeWrap::constructor.New(\<newline>      {Napi::External<QSize>::New(env, new QSize(result))});\<newline>    return resultInstance;'')
      else if returnType = ''QSizeF''
      then Inr (''  auto resultInstance = QSizeFWrap::constructor.New(\<newline>      {Napi::External<QSizeF>::New(env, new QSizeF(result))});\<newline>    return resultInstance;'')
      else if returnType = ''QString''
      then Inr (''  return Napi::String::New(env, result.toStdString());\<newline>'')
      else if returnType = ''QWidget'' \<or> returnType = ''QAction'' \<or> returnType = ''QMenu''
      then Inr (''  if (result) {\<newline>        return WrapperCache::instance.getWrapper(env, result);\<newline>      } else {\<newline>        return env.Null();\<newline>      }'')
      else if returnType = ''QIcon''
      then Inr (''  auto resultInstance = QIconWrap::constructor.New(\<newline>      {Napi::External<QIcon>::New(env, new QIcon(result))});\<newline>    return resultInstance;'')
      else Inl (JsError (''Unexpected return type '' @ returnType @ '' while processing C++ body.'')))"

definition formatCppMethodBody ::
  "string \<Rightarrow> string \<Rightarrow> CppArgument list \<Rightarrow> string \<Rightarrow> jsval + string" where
  "formatCppMethodBody className methodName args returnType =
     (case cppArgumentLoop 0 args
             (''\<newline>Napi::Value '' @ className @ ''Wrap::'' @ methodName
              @ ''(const Napi::CallbackInfo& info) {\<newline>  Napi::Env env = info.Env();\<newline>'') of
        Inl e \<Rightarrow> Inl e
      | Inr methodBody \<Rightarrow>
          let methodBody = methodBody @ cppResultDeclaration returnType;
              methodBody = methodBody @ ''this->instance->'' @ methodName @ ''('';
              methodBody = methodBody @ join '', '' (map cppInvocationArgument args);
              methodBody = methodBody @ '');\<newline>''
          in (case cppReturnStatement returnType of
                Inl e \<Rightarrow> Inl e
              | Inr statement \<Rightarrow> Inr (methodBody @ statement @ ''\<newline>}\<newline>'')))"

section \<open>Typed API emitter\<close>

definition formatTSMethodName :: "string \<Rightarrow> string" where
  "formatTSMethodName methodName =
     (if startsWith methodName ''gl''
      then let body = substr methodName 2 in toLowerCase (substr2 body 0 1) @ substr body 1
      else methodName)"

definition mapCppToTsReturnType :: "string \<Rightarrow> jsval + string" where
  "mapCppToTsReturnType returnType =
     (
      if returnType = ''void''
      then Inr (''void'')
      else if returnType = ''GLboolean'' \<or> returnType = ''bool''
      then Inr (''boolean'')
      else if returnType = ''int'' \<or> returnType = ''GLenum'' \<or> returnType = ''GLfloat'' \<or> returnType = ''GLint'' \<or> returnType = ''GLuint'' \<or> returnType = ''GLsizei'' \<or> returnType = ''qreal''
      then Inr (''number'')
      else if returnType = ''QModelIndex''
      then Inr (returnType)
      else if returnType = ''QModelIndexList''
      then Inr (''QModelIndex[]'')
      else if returnType = ''QRect''
      then Inr (''QRect'')
      else if returnType = ''Qt::Alignment''
      then Inr (''AlignmentFlag'')
      else if returnType = ''Qt::Orientation''
      then Inr (''Orientation'')
      else if returnType = ''QHeaderView::ResizeMode''
      then Inr (''QHeaderViewResizeMode'')
      else if returnType = ''Qt::SortOrder''
      then Inr (''SortOrder'')
      else if returnType = ''QComboBox::InsertPolicy''
      then Inr (''InsertPolicy'')
      else if returnType = ''QComboBox::SizeAdjustPolicy''
      then Inr (''SizeAdjustPolicy'')
      else if returnType = ''Qt::TextElideMode''
      then Inr (''TextElideMode'')
      else if returnType = ''QSize''
      then Inr (''QSize'')
      else if returnType = ''QSizeF''
      then Inr (''QSizeF'')
      else if returnType = ''Qt::ContextMenuPolicy''
      then Inr (''ContextMenuPolicy'')
      else if returnType = ''Qt::WindowFlags''
      then Inr (''WindowFlags'')
      else if returnType = ''QString''
      then Inr (''string'')
      else if returnType = ''QIcon'' \<or> returnType = ''QWidget'' \<or> returnType = ''QAction'' \<or> returnType = ''QMenu''
      then Inr (returnType)
      else Inl (JsError (''Unexpected return type '' @ returnType @ '' while processing TypeScript.'')))"

definition mapCppToTSArgumentType :: "string \<Rightarrow> string \<Rightarrow> jsval + string" where
  "mapCppToTSArgumentType argType argName =
     (
      if argType = ''GLboolean'' \<or> argType = ''bool''
      then Inr (''boolean'')
      else if argType = ''GLclampf'' \<or> argType = ''GLenum'' \<or> argType = ''GLfloat'' \<or> argType = ''GLint'' \<or> argType = ''GLuint'' \<or> argType = ''GLsizei'' \<or> argType = ''int'' \<or> argType = ''uint'' \<or> argType = ''qreal''
      then Inr (''number'')
      else if argType = ''const QModelIndex''
      then Inr (''QModelIndex'')
      else if argType = ''const QPoint''
      then Inr (''QPoint'')
      else if argType = ''const QSize''
      then Inr (''QSize'')
      else if argType = ''const QSizeF''
      then Inr (''QSizeF'')
      else if argType = ''QItemSelectionModel::SelectionFlags''
      then Inr (''SelectionFlag'')
      else if argType = ''QAbstractItemView::CursorAction''
      then Inr (''CursorAction'')
      else if argType = ''QAbstractItemView::ScrollHint''
      then Inr (''ScrollHint'')
      else if argType = ''QHeaderView::ResizeMode''
      then Inr (''QHeaderViewResizeMode'')
      else if argType = ''Qt::SortOrder''
      then Inr (''SortOrder'')
      else if argType = ''QComboBox::InsertPolicy''
      then Inr (''InsertPolicy'')
      else if argType = ''QComboBox::SizeAdjustPolicy''
      then Inr (''SizeAdjustPolicy'')
      else if argType = ''Qt::TextElideMode''
      then Inr (''TextElideMode'')
      else if argType = ''Qt::Alignment''
      then Inr (''AlignmentFlag'')
      else if argType = ''Qt::Orientation''
      then Inr (''Orientation'')
      else if argType = ''Qt::AspectRatioMode''
      then Inr (''AspectRatioMode'')
      else if argType = ''const QString''
      then Inr (''string'')
      else if argType = ''QSizePolicy::Policy''
      then Inr (''QSizePolicyPolicy'')
      else if argType = ''QWidget''
      then Inr (''QWidget'')
      else if argType = ''QIcon::Mode''
      then Inr (''QIconMode'')
      else if argType = ''QIcon::State''
      then Inr (''QIconState'')
      else if argType = ''const QPixmap''
      then Inr (''QPixmap'')
      else if argType = ''QPainter''
      then Inr (''QPainter'')
      else if argType = ''QAction''
      then Inr (''QAction'')
      else if argType = ''QMenu''
      then Inr (''QMenu'')
      else if argType = ''const QIcon''
      then Inr (''QIcon'')
      else if argType = ''Qt::Corner''
      then Inr (''Corner'')
      else Inl (JsError (''mapCppToTSArgumentType(): Unexpected argument type '' @ [CHR 0x27] @ argType @ [CHR 0x27] @ '' specificed for argument '' @ [CHR 0x27] @ argName @ [CHR 0x27] @ '' while processing TypeScript.'')))"

text \<open>\<open>args.map(arg => `${arg.name}: ${mapCppToTSArgumentType(arg.type, arg.name)}`)\<close>:
  the first argument whose type has no rule throws.\<close>
fun tsParameters :: "CppArgument list \<Rightarrow> jsval + string list" where
  "tsParameters [] = Inr []"
| "tsParameters (arg # args) =
     (case mapCppToTSArgumentType (arg_type arg) (arg_name arg) of
        Inl e \<Rightarrow> Inl e
      | Inr tsType \<Rightarrow>
          (case tsParameters args of
             Inl e \<Rightarrow> Inl e
           | Inr ps \<Rightarrow> Inr ((arg_name arg @ '': '' @ tsType) # ps)))"

text \<open>The first lines of \<open>formatTSMethod\<close> and \<open>formatTSProperty\<close>: the typed header.\<close>
definition tsHeader :: "string \<Rightarrow> CppArgument list \<Rightarrow> string \<Rightarrow> jsval + string" where
  "tsHeader methodName args returnType =
     (let tsBody = ''    '' @ formatTSMethodName methodName @ ''('' in
      case tsParameters args of
        Inl e \<Rightarrow> Inl e
      | Inr ps \<Rightarrow>
          let tsBody = tsBody @ join '', '' ps in
          (case mapCppToTsReturnType returnType of
             Inl e \<Rightarrow> Inl e
           | Inr tsType \<Rightarrow> Inr (tsBody @ ''): '' @ tsType @ '' {\<newline>'')))"

definition tsCallArgument :: "CppArgument \<Rightarrow> string" where
  "tsCallArgument arg =
     (if arg_type arg \<in> set TS_WRAPPER_TYPES then arg_name arg @ ''.native'' else arg_name arg)"

text \<open>The \<open>switch (returnType)\<close> of \<open>formatTSMethod\<close>.\<close>
definition tsMethodStatement :: "string \<Rightarrow> string \<Rightarrow> string" where
  "tsMethodStatement returnType methodCall =
     (
      if returnType = ''void''
      then (methodCall @ '';\<newline>'')
      else if returnType = ''QModelIndex''
      then (''        return new QModelIndex('' @ methodCall @ '');\<newline>'')
      else if returnType = ''QModelIndexList''
      then (''        const methodResult = '' @ methodCall @ '';\<newline>        return methodResult.map((item: any) => new QModelIndex(item));\<newline>'')
      else if returnType = ''QRect''
      then (''        return new QRect('' @ methodCall @ '');\<newline>'')
      else if returnType = ''QSize''
      then (''        return new QSize('' @ methodCall @ '');\<newline>'')
      else if returnType = ''QSizeF''
      then (''        return new QSizeF('' @ methodCall @ '');\<newline>'')
      else if returnType = ''QWidget''
      then (''        return wrapperCache.getWrapper('' @ methodCall @ '') as QWidget;\<newline>'')
      else if returnType = ''QAction''
      then (''        return wrapperCache.getWrapper('' @ methodCall @ '') as QAction;\<newline>'')
      else if returnType = ''QMenu''
      then (''        return wrapperCache.getWrapper('' @ methodCall @ '') as QMenu;\<newline>'')
      else (''        return '' @ methodCall @ '';\<newline>''))"

definition formatTSMethod :: "string \<Rightarrow> CppArgument list \<Rightarrow> string \<Rightarrow> jsval + string" where
  "formatTSMethod methodName args returnType =
     (case tsHeader methodName args returnType of
        Inl e \<Rightarrow> Inl e
      | Inr tsBody \<Rightarrow>
          let methodCall = ''this.native.'' @ methodName @ ''('';
              methodCall = methodCall @ join '', '' (map tsCallArgument args);
              methodCall = methodCall @ '')'';
              tsBody = tsBody @ tsMethodStatement returnType methodCall
          in Inr (tsBody @ ''    }\<newline>''))"

text \<open>\<open>methodName[3]\<close>: \<open>undefined\<close> (\<open>None\<close>) beyond the end of the string.\<close>
definition charAt :: "string \<Rightarrow> nat \<Rightarrow> char option" where
  "charAt s i = (if i < length s then Some (s ! i) else None)"

text \<open>\<open>String.prototype.slice(start)\<close> for a non-negative start.\<close>
definition slice :: "string \<Rightarrow> nat \<Rightarrow> string" where
  "slice s start = drop start s"

text \<open>The \<open>switch (returnType)\<close> of \<open>formatTSProperty\<close>; reading \<open>toLowerCase\<close> of the
  undefined \<open>methodName[3]\<close> throws a \<open>TypeError\<close>.\<close>
definition tsPropertyStatement :: "string \<Rightarrow> CppArgument list \<Rightarrow> string \<Rightarrow> jsval + string" where
  "tsPropertyStatement methodName args returnType =
     (
      if returnType = ''void''
      then (case charAt methodName 3 of
      None \<Rightarrow> Inl (JsTypeError ''toLowerCase'')
      | Some c \<Rightarrow>
      Inr (''this.setProperty('' @ [CHR 0x27] @ toLowerCase [c] @ slice methodName 4 @ [CHR 0x27] @ '', '' @ join '', '' (map arg_name args) @ '');\<newline>''))
      else if returnType = ''bool''
      then Inr (''        return this.property('' @ [CHR 0x27] @ methodName @ [CHR 0x27] @ '').toBool();\<newline>'')
      else if returnType = ''QString''
      then Inr (''        return this.property('' @ [CHR 0x27] @ methodName @ [CHR 0x27] @ '').toString();\<newline>'')
      else if returnType = ''Qt::WindowFlags'' \<or> returnType = ''Qt::ContextMenuPolicy'' \<or> returnType = ''int'' \<or> returnType = ''uint''
      then Inr (''        return this.property('' @ [CHR 0x27] @ methodName @ [CHR 0x27] @ '').toInt();\<newline>'')
      else if returnType = ''QRect''
      then Inr (''        return QRect.fromQVariant(this.property('' @ [CHR 0x27] @ methodName @ [CHR 0x27] @ ''));\<newline>'')
      else if returnType = ''QSize''
      then Inr (''        return QSize.fromQVariant(this.property('' @ [CHR 0x27] @ methodName @ [CHR 0x27] @ ''));\<newline>'')
      else if returnType = ''QSizeF''
      then Inr (''        return QSizeF.fromQVariant(this.property('' @ [CHR 0x27] @ methodName @ [CHR 0x27] @ ''));\<newline>  '')
      else if returnType = ''QIcon''
      then Inr (''        return QIcon.fromQVariant(this.property('' @ [CHR 0x27] @ methodName @ [CHR 0x27] @ ''));\<newline>'')
      else Inr (''        return this.property('' @ [CHR 0x27] @ methodName @ [CHR 0x27] @ '');\<newline>''))"

definition formatTSProperty :: "string \<Rightarrow> CppArgument list \<Rightarrow> string \<Rightarrow> jsval + string" where
  "formatTSProperty methodName args returnType =
     (case tsHeader methodName args returnType of
        Inl e \<Rightarrow> Inl e
      | Inr tsBody \<Rightarrow>
          (case tsPropertyStatement methodName args returnType of
             Inl e \<Rightarrow> Inl e
           | Inr statement \<Rightarrow> Inr (tsBody @ statement @ ''    }\<newline>'')))"

section \<open>Expansion of one signature\<close>

definition expandMethod :: "string \<Rightarrow> string \<Rightarrow> jsval" where
  \<open>expandMethod className signature =
     (case parseMethodSignature signature of
        Inl failedResult \<Rightarrow> FailedResult failedResult
      | Inr parsed \<Rightarrow>
          let args = sig_args parsed; methodName = sig_methodName parsed;
              returnType = sig_returnType parsed;
              methodDeclaration =
                ''  Napi::Value '' @ methodName @ ''(const Napi::CallbackInfo& info);\<newline>'';
              napiInit =
                ''       InstanceMethod("'' @ methodName @ ''", &'' @ className @ ''Wrap::''
                @ methodName @ ''),\<newline>''
          in (case formatCppMethodBody className methodName args returnType of
                Inl failedResult \<Rightarrow> FailedResult failedResult
              | Inr methodBody \<Rightarrow>
                  (case formatTSMethod methodName args returnType of
                     Inl failedResult \<Rightarrow> FailedResult failedResult
                   | Inr tsBody \<Rightarrow>
                       OkResult (Some methodDeclaration) (Some napiInit) (Some methodBody)
                         (Some tsBody))))\<close>

definition expandProperty :: "string \<Rightarrow> jsval" where
  "expandProperty signature =
     (case parseMethodSignature signature of
        Inl failedResult \<Rightarrow> failedResult
      | Inr parsed \<Rightarrow>
          (case formatTSProperty (sig_methodName parsed) (sig_args parsed) (sig_returnType parsed) of
             Inl failedResult \<Rightarrow> failedResult
           | Inr tsBody \<Rightarrow> OkResult None None None (Some tsBody)))"

section \<open>Batch driver\<close>

text \<open>What a run leaves behind: the lines written with \<open>log\<close>, and, when an exception
  escaped \<open>process\<close>, that exception.\<close>
datatype outcome =
    Returned "string list"
  | Uncaught jsval "string list"

record Blocks =
  cppDeclaration :: "string list"
  napiInitBlock :: "string list"
  bodyBlock :: "string list"
  tsBlock :: "string list"

text \<open>\<open>while (lines[lineNumber].trim() === '' && lineNumber < lines.length) lineNumber++\<close>:
  the line is read before the index is compared with the length, and \<open>trim\<close> of the
  undefined \<open>lines[lines.length]\<close> throws.\<close>
function skipBlankLines :: "string list \<Rightarrow> nat \<Rightarrow> jsval + nat" where
  "skipBlankLines lines lineNumber =
     (if lineNumber < length lines
      then (if trim (lines ! lineNumber) = [] \<and> lineNumber < length lines
            then skipBlankLines lines (Suc lineNumber)
            else Inr lineNumber)
      else Inl (JsTypeError ''trim''))"
  by pat_completeness auto
termination
  by (relation "measure (\<lambda>(lines, lineNumber). length lines - lineNumber)") auto

definition pushIfNotNull :: "string option \<Rightarrow> string list \<Rightarrow> string list" where
  "pushIfNotNull v block = (case v of None \<Rightarrow> block | Some s \<Rightarrow> block @ [s])"

text \<open>The loop over the body lines: \<open>Inl\<close> is the line logged by the \<open>'failed'\<close> case before
  \<open>process\<close> returns; a result whose \<open>type\<close> is neither \<open>'ok'\<close> nor \<open>'failed'\<close> matches no
  case of the switch.\<close>
fun bodyLoop :: "bool \<Rightarrow> string \<Rightarrow> string list \<Rightarrow> Blocks \<Rightarrow> string + Blocks" where
  "bodyLoop isProp className [] blocks = Inr blocks"
| "bodyLoop isProp className (line # lines) blocks =
     (let trimLine = trim line in
      if trimLine = [] then bodyLoop isProp className lines blocks
      else
        (case (if isProp then expandProperty trimLine else expandMethod className trimLine) of
           OkResult methodDeclaration napiInit methodBody tsBody \<Rightarrow>
             bodyLoop isProp className lines
               \<lparr>cppDeclaration = pushIfNotNull methodDeclaration (cppDeclaration blocks),
                napiInitBlock = pushIfNotNull napiInit (napiInitBlock blocks),
                bodyBlock = pushIfNotNull methodBody (bodyBlock blocks),
                tsBlock = pushIfNotNull tsBody (tsBlock blocks)\<rparr>
         | FailedResult message \<Rightarrow> Inl (''>>> ERROR: '' @ toString message)
         | _ \<Rightarrow> bodyLoop isProp className lines blocks))"

definition sectionRule :: string where
  "sectionRule = ''//----------------------------------------------------''"

definition emitBlocks :: "string \<Rightarrow> Blocks \<Rightarrow> string list" where
  "emitBlocks className blocks =
     [''// CLASS: '' @ className]
     @ (if length (cppDeclaration blocks) \<noteq> 0
        then [sectionRule, ''// C++ declaration'', join [] (cppDeclaration blocks), []] else [])
     @ (if length (napiInitBlock blocks) \<noteq> 0
        then [sectionRule, ''// Napi declaration'', join [] (napiInitBlock blocks), []] else [])
     @ (if length (bodyBlock blocks) \<noteq> 0
        then [sectionRule, ''// C++ body'', join [] (bodyBlock blocks), []] else [])
     @ [sectionRule, ''// TS body'', join [] (tsBlock blocks)]"

text \<open>The header line: \<open>classNameRegex\<close> first, then \<open>propNameRegex\<close>; the result is
  \<open>found.groups.className\<close> and \<open>isProp\<close>.\<close>
definition matchHeader :: "string \<Rightarrow> (string \<times> bool) option" where
  "matchHeader line =
     (case rsearch classNameRegex line of
        Some found \<Rightarrow> Some (the (found ''className''), False)
      | None \<Rightarrow>
          (case rsearch propNameRegex line of
             Some found \<Rightarrow> Some (the (found ''className''), True)
           | None \<Rightarrow> None))"

definition process :: "string \<Rightarrow> outcome" where
  "process inputString =
     (let lines = split CHR ''\<newline>'' inputString in
      case skipBlankLines lines 0 of
        Inl e \<Rightarrow> Uncaught e []
      | Inr lineNumber \<Rightarrow>
          if lineNumber = length lines
          then Returned [''ERROR: No non-blank lines were found.'']
          else
            (case matchHeader (lines ! lineNumber) of
               None \<Rightarrow>
                 Returned [''ERROR: Unable to find CLASS or PROP comment. i.e. // CLASS: FooBarWidget'']
             | Some (className, isProp) \<Rightarrow>
                 (case bodyLoop isProp className (drop (lineNumber + 1) lines)
                         \<lparr>cppDeclaration = [], napiInitBlock = [], bodyBlock = [], tsBlock = []\<rparr> of
                    Inl failure \<Rightarrow> Returned [failure]
                  | Inr blocks \<Rightarrow> Returned (emitBlocks className blocks))))"

section \<open>Named groups of a match\<close>

text \<open>Whenever one of the three expressions matches, the groups that the generator reads
  are defined, so the reads of \<open>found.groups\<close> in \<open>parseMethodSignature\<close> and \<open>process\<close>
  never yield \<open>undefined\<close>.\<close>

lemma rmatch_dom:
  "(g', s') \<in> set (rmatch r (g, s)) \<Longrightarrow> dom g \<union> definedGroups r \<subseteq> dom g'"
proof (induction r arbitrary: g s g' s')
  case (Lit l)
  then show ?case by (simp split: if_splits)
next
  case (Star p)
  then show ?case by auto
next
  case (Plus p)
  then show ?case by (auto split: list.splits if_splits)
next
  case (Opt r)
  then show ?case by fastforce
next
  case (Seq r1 r2)
  from Seq.prems obtain g1 s1 where
    a: "(g1, s1) \<in> set (rmatch r1 (g, s))" and b: "(g', s') \<in> set (rmatch r2 (g1, s1))"
    by auto
  from Seq.IH(1) [OF a] Seq.IH(2) [OF b]
  have "dom g \<union> definedGroups r1 \<subseteq> dom g1" "dom g1 \<union> definedGroups r2 \<subseteq> dom g'" .
  then show ?case by (simp only: definedGroups.simps) blast
next
  case (Group name r)
  from Group.prems obtain g1 where
    a: "(g1, s') \<in> set (rmatch r (g, s))" and g': "g' = g1(name \<mapsto> take (length s - length s') s)"
    by auto
  from Group.IH [OF a] g' show ?case by auto
qed

lemma rsearch_dom: "rsearch r s = Some g \<Longrightarrow> definedGroups r \<subseteq> dom g"
proof (induction s)
  case Nil
  then obtain s' rest where "rmatch r (Map.empty, []) = (g, s') # rest"
    by (auto split: list.splits)
  then have "(g, s') \<in> set (rmatch r (Map.empty, []))" by simp
  from rmatch_dom [OF this] show ?case by simp
next
  case (Cons c cs)
  show ?case
  proof (cases "rmatch r (Map.empty, c # cs)")
    case Nil
    with Cons show ?thesis by simp
  next
    case (Cons st rest)
    with Cons.prems obtain s' where "st = (g, s')" by (cases st) simp
    with Cons have "(g, s') \<in> set (rmatch r (Map.empty, c # cs))" by simp
    from rmatch_dom [OF this] show ?thesis by simp
  qed
qed

lemma sigRegex_groups:
  assumes "rsearch sigRegex s = Some g"
  shows "\<exists>returnType methodName args.
    g ''returnType'' = Some returnType \<and> g ''methodName'' = Some methodName \<and> g ''args'' = Some args"
proof -
  have "definedGroups sigRegex = {''returnType'', ''methodName'', ''args''}"
    by (auto simp: sigRegex_def seqs_def)
  with rsearch_dom [OF assms] show ?thesis by auto
qed

lemma header_groups:
  "rsearch classNameRegex s = Some g \<Longrightarrow> \<exists>className. g ''className'' = Some className"
  "rsearch propNameRegex s = Some g \<Longrightarrow> \<exists>className. g ''className'' = Some className"
  using rsearch_dom [of classNameRegex s g] rsearch_dom [of propNameRegex s g]
  by (auto simp: classNameRegex_def propNameRegex_def seqs_def)

section \<open>The header loop\<close>

declare skipBlankLines.simps [simp del]

lemma skipBlankLines_all_blank:
  "\<forall>l \<in> set lines. trim l = [] \<Longrightarrow> skipBlankLines lines n = Inl (JsTypeError ''trim'')"
proof (induction lines n rule: skipBlankLines.induct)
  case (1 lines lineNumber)
  show ?case
  proof (cases "lineNumber < length lines")
    case True
    with "1.prems" have "trim (lines ! lineNumber) = []" by simp
    with True "1.IH" "1.prems" show ?thesis
      by (subst skipBlankLines.simps) simp
  next
    case False
    then show ?thesis by (subst skipBlankLines.simps) simp
  qed
qed

lemma skipBlankLines_Inr:
  "skipBlankLines lines n = Inr k \<Longrightarrow> k < length lines \<and> trim (lines ! k) \<noteq> []"
proof (induction lines n rule: skipBlankLines.induct)
  case (1 lines lineNumber)
  from "1.prems" have lt: "lineNumber < length lines"
    by (subst (asm) skipBlankLines.simps) (simp split: if_splits)
  show ?case
  proof (cases "trim (lines ! lineNumber) = []")
    case True
    with lt "1.prems" have "skipBlankLines lines (Suc lineNumber) = Inr k"
      by (subst (asm) skipBlankLines.simps) simp
    with "1.IH" lt True show ?thesis by simp
  next
    case False
    with lt "1.prems" have "k = lineNumber"
      by (subst (asm) skipBlankLines.simps) simp
    with lt False show ?thesis by simp
  qed
qed

text \<open>
  Claim C7 says that an input made of blank lines only (the empty input included) is
  answered with the diagnostic \<open>ERROR: No non-blank lines were found.\<close> and nothing else.
  The header loop reads \<open>lines[lineNumber].trim()\<close> before it compares \<open>lineNumber\<close> with
  \<open>lines.length\<close>, so on such an input it runs past the last line and \<open>process\<close> ends
  with an uncaught \<open>TypeError\<close>; nothing has been logged.
\<close>
theorem blank_input_uncaught:
  "\<forall>l \<in> set (split CHR ''\<newline>'' inputString). trim l = [] \<Longrightarrow>
   process inputString = Uncaught (JsTypeError ''trim'') []"
  by (simp add: process_def skipBlankLines_all_blank)

text \<open>The empty input and an input of two blank lines.\<close>
theorem blank_input_uncaught_witness:
  "split CHR ''\<newline>'' [] = [[]] \<and> trim [] = [] \<and>
   process [] = Uncaught (JsTypeError ''trim'') [] \<and>
   split CHR ''\<newline>'' '' \<newline>'' = ['' '', []] \<and> trim '' '' = [] \<and>
   process '' \<newline>'' = Uncaught (JsTypeError ''trim'') []"
proof -
  have s1: "split CHR ''\<newline>'' [] = [[]]" and t1: "trim [] = []"
    and s2: "split CHR ''\<newline>'' '' \<newline>'' = ['' '', []]" and t2: "trim '' '' = []"
    by code_simp+
  have h1: "\<forall>l \<in> set (split CHR ''\<newline>'' []). trim l = []"
    using t1 by (simp only: s1) simp
  have h2: "\<forall>l \<in> set (split CHR ''\<newline>'' '' \<newline>''). trim l = []"
    using t1 t2 by (simp only: s2) simp
  from blank_input_uncaught [OF h1] blank_input_uncaught [OF h2] s1 s2 t1 t2
  show ?thesis by (intro conjI)
qed

section \<open>Unsupported types\<close>

text \<open>
  Claim C2 says that a signature whose return or argument type is not in the registry
  is answered with one diagnostic that names the type token and the raw line.  In
  operation mode \<open>expandMethod\<close> stores the caught failed-result object itself in the
  \<open>message\<close> field of a new failed-result, so the driver prints the object, not its text.
\<close>
theorem unsupported_type_operation_mode:
  "process ''// CLASS: Foo\<newline>// TODO: Frobnicator zap()'' =
     Returned [''>>> ERROR: [object Object]'']"
  by code_simp

text \<open>In property mode \<open>expandProperty\<close> returns the caught object as it is, and the
  diagnostic names the type and the line.\<close>
lemma unsupported_type_property_mode:
  "process ''// PROP: Foo\<newline>// TODO: Frobnicator zap()'' =
     Returned [''>>> ERROR: Return type '' @ [CHR 0x27] @ ''Frobnicator'' @ [CHR 0x27]
               @ '' is unknown for signature '' @ [CHR 0x27] @ ''// TODO: Frobnicator zap()''
               @ [CHR 0x27] @ ''.'']"
  by code_simp

section \<open>Coverage of the argument types\<close>

lemma supported_arg_rules_cpp:
  "t \<in> set SUPPORTED_ARG_TYPES \<Longrightarrow> t \<noteq> ''QPoint'' \<Longrightarrow>
   \<exists>s. cppArgumentStatement i \<lparr>arg_type = t, arg_name = n\<rparr> = Inr s"
  unfolding SUPPORTED_ARG_TYPES_def cppArgumentStatement_def Let_def
  by (elim disjE | simp)+

lemma supported_arg_rules_ts:
  "t \<in> set SUPPORTED_ARG_TYPES \<Longrightarrow> t \<noteq> ''QPoint'' \<Longrightarrow>
   \<exists>s. mapCppToTSArgumentType t n = Inr s"
  unfolding SUPPORTED_ARG_TYPES_def mapCppToTSArgumentType_def
  by auto

text \<open>
  Claim C9 says that every type of \<open>SUPPORTED_ARG_TYPES\<close> has a rule in the argument
  switch of \<open>formatCppMethodBody\<close> and in \<open>mapCppToTSArgumentType\<close>, so that their throwing
  default branches cannot be reached from a parsed signature.  \<open>QPoint\<close> is in the
  registry (and in \<open>DEREFERENCE_TYPES\<close> and \<open>TS_WRAPPER_TYPES\<close>) but in neither switch:
  the signature parses, both default branches throw, and the driver prints the
  \<open>Error\<close> of the native emitter.
\<close>
theorem qpoint_reaches_default_branches:
  "isSupportedArgType ''QPoint'' \<and>
   parseMethodSignature ''// TODO: void move(QPoint p)'' =
     Inr \<lparr>sig_args = [\<lparr>arg_type = ''QPoint'', arg_name = ''p''\<rparr>],
          sig_methodName = ''move'', sig_returnType = ''void''\<rparr> \<and>
   cppArgumentStatement 0 \<lparr>arg_type = ''QPoint'', arg_name = ''p''\<rparr> =
     Inl (JsError (''formatCppMethodBody(): Unexpected arg type '' @ [CHR 0x27] @ ''QPoint''
                   @ [CHR 0x27] @ '' while processing C++ body.'')) \<and>
   mapCppToTSArgumentType ''QPoint'' ''p'' =
     Inl (JsError (''mapCppToTSArgumentType(): Unexpected argument type '' @ [CHR 0x27]
                   @ ''QPoint'' @ [CHR 0x27] @ '' specificed for argument '' @ [CHR 0x27] @ ''p''
                   @ [CHR 0x27] @ '' while processing TypeScript.'')) \<and>
   process ''// CLASS: Foo\<newline>// TODO: void move(QPoint p)'' =
     Returned [''>>> ERROR: Error: formatCppMethodBody(): Unexpected arg type '' @ [CHR 0x27]
               @ ''QPoint'' @ [CHR 0x27] @ '' while processing C++ body.'']"
  by code_simp

section \<open>Parsed signatures\<close>

lemma parse_failure_shape:
  "parseMethodSignature signature = Inl e \<Longrightarrow> \<exists>message. e = FailedResult (Str message)"
  by (auto simp: parseMethodSignature_def Let_def split: option.splits if_splits)

lemma parseArgsLoop_map_filter:
  "parseArgsLoop parts result = result @ List.map_filter parseArg parts"
  by (induction parts arbitrary: result) (auto simp: List.map_filter_simps split: option.splits)

lemma parseArg_name: "parseArg part = Some a \<Longrightarrow> arg_name a \<noteq> []"
  by (auto simp: parseArg_def Let_def split: if_splits)

text \<open>
  Claim C8 says that the argument names of a parsed signature are pairwise distinct.
  The parser never compares names: a line that names two arguments alike is accepted
  with both.
\<close>
theorem duplicate_argument_names_accepted:
  "parseMethodSignature ''// TODO: int add(int a, int a)'' =
     Inr \<lparr>sig_args = [\<lparr>arg_type = ''int'', arg_name = ''a''\<rparr>,
                      \<lparr>arg_type = ''int'', arg_name = ''a''\<rparr>],
          sig_methodName = ''add'', sig_returnType = ''int''\<rparr> \<and>
   \<not> distinct (map arg_name [\<lparr>arg_type = ''int'', arg_name = ''a''\<rparr>,
                              \<lparr>arg_type = ''int'', arg_name = ''a''\<rparr>])"
  by code_simp

text \<open>
  Claim C8 as amended: every argument of a parsed signature has a non-empty name and a
  type of the argument registry, and the argument list holds, in the written order, one
  argument for each comma-separated part of the parenthesised text that names one
  (\<open>parseArg\<close>); names are taken as written and may repeat.
\<close>
theorem parsed_arguments:
  assumes "parseMethodSignature signature = Inr parsed"
  shows "(\<forall>arg \<in> set (sig_args parsed). arg_name arg \<noteq> [] \<and> isSupportedArgType (arg_type arg)) \<and>
         (\<exists>found. rsearch sigRegex signature = Some found \<and>
            sig_args parsed = List.map_filter parseArg (split CHR '','' (the (found ''args''))))"
proof -
  from assms obtain found where
    f: "rsearch sigRegex signature = Some found" and
    a: "sig_args parsed = parseArgs (the (found ''args''))" and
    n: "find (\<lambda>arg. \<not> isSupportedArgType (arg_type arg)) (parseArgs (the (found ''args''))) = None"
    by (auto simp: parseMethodSignature_def Let_def split: option.splits if_splits)
  have m: "parseArgs (the (found ''args'')) =
           List.map_filter parseArg (split CHR '','' (the (found ''args'')))"
    by (simp add: parseArgs_def parseArgsLoop_map_filter)
  have "\<forall>arg \<in> set (parseArgs (the (found ''args''))). arg_name arg \<noteq> []"
    unfolding m by (auto simp: List.map_filter_def dest: parseArg_name)
  moreover from n have "\<forall>arg \<in> set (parseArgs (the (found ''args''))). isSupportedArgType (arg_type arg)"
    by (simp add: find_None_iff)
  ultimately show ?thesis using f a m by auto
qed

text \<open>A line with a reference argument.\<close>
theorem parsed_arguments_witness:
  "parseMethodSignature ''// TODO: int add(int a, const QString &b)'' =
     Inr \<lparr>sig_args = [\<lparr>arg_type = ''int'', arg_name = ''a''\<rparr>,
                      \<lparr>arg_type = ''const QString'', arg_name = ''b''\<rparr>],
          sig_methodName = ''add'', sig_returnType = ''int''\<rparr> \<and>
   list_all (\<lambda>arg. arg_name arg \<noteq> [] \<and> isSupportedArgType (arg_type arg))
     [\<lparr>arg_type = ''int'', arg_name = ''a''\<rparr>, \<lparr>arg_type = ''const QString'', arg_name = ''b''\<rparr>]"
proof -
  have h: "parseMethodSignature ''// TODO: int add(int a, const QString &b)'' =
     Inr \<lparr>sig_args = [\<lparr>arg_type = ''int'', arg_name = ''a''\<rparr>,
                      \<lparr>arg_type = ''const QString'', arg_name = ''b''\<rparr>],
          sig_methodName = ''add'', sig_returnType = ''int''\<rparr>"
    by code_simp
  from parsed_arguments [OF h] h show ?thesis
    by (simp add: list_all_iff)
qed



section \<open>Blank lines and the header\<close>

lemma trim_Nil_iff: "trim s = [] \<longleftrightarrow> (\<forall>c \<in> set s. isSpace c)"
proof
  assume "trim s = []"
  then have "\<forall>c \<in> set (dropWhile isSpace s). isSpace c"
    by (simp add: trim_def)
  then have "dropWhile isSpace s = []"
    by (metis hd_dropWhile list.set_sel(1))
  then show "\<forall>c \<in> set s. isSpace c" by simp
next
  assume "\<forall>c \<in> set s. isSpace c"
  then show "trim s = []" by (auto simp: trim_def dest: set_dropWhileD)
qed

lemma rmatch_Lit_slash:
  "c \<noteq> CHR ''/'' \<Longrightarrow> rmatch (Seq (Lit (CHR ''/'' # l)) r) (g, c # cs) = []"
  by simp

lemma rmatch_Lit_slash_Nil:
  "rmatch (Seq (Lit (CHR ''/'' # l)) r) (g, []) = []"
  by simp

lemma rsearch_no_slash:
  "\<forall>c \<in> set s. c \<noteq> CHR ''/'' \<Longrightarrow> rsearch (Seq (Lit (CHR ''/'' # l)) r) s = None"
proof (induction s)
  case Nil
  show ?case by (simp only: rsearch.simps rmatch_Lit_slash_Nil list.case)
next
  case (Cons c cs)
  then have "c \<noteq> CHR ''/''" by simp
  then have "rmatch (Seq (Lit (CHR ''/'' # l)) r) (Map.empty, c # cs) = []"
    by (rule rmatch_Lit_slash)
  with Cons show ?case by (simp only: rsearch.simps list.case) simp
qed

lemma matchHeader_nonblank: "matchHeader line = Some h \<Longrightarrow> trim line \<noteq> []"
proof
  assume m: "matchHeader line = Some h" and "trim line = []"
  then have "\<forall>c \<in> set line. isSpace c"
    by (simp add: trim_Nil_iff)
  moreover have "\<not> isSpace CHR ''/''" by (simp add: isSpace_def)
  ultimately have ns: "\<forall>c \<in> set line. c \<noteq> CHR ''/''" by blast
  have "rsearch classNameRegex line = None"
    unfolding classNameRegex_def seqs_def foldr.simps o_apply
    using ns by (rule rsearch_no_slash)
  moreover have "rsearch propNameRegex line = None"
    unfolding propNameRegex_def seqs_def foldr.simps o_apply
    using ns by (rule rsearch_no_slash)
  ultimately show False using m by (simp add: matchHeader_def)
qed


section \<open>The body loop\<close>

lemma skipBlankLines_skip:
  "\<forall>l \<in> set blanks. trim l = [] \<Longrightarrow> trim header \<noteq> [] \<Longrightarrow> n \<le> length blanks \<Longrightarrow>
   skipBlankLines (blanks @ header # rest) n = Inr (length blanks)"
proof (induction "length blanks - n" arbitrary: n)
  case 0
  then have "n = length blanks" by simp
  with "0.prems" show ?case
    by (subst skipBlankLines.simps) simp
next
  case (Suc d)
  then have lt: "n < length blanks" by simp
  with Suc.prems have b: "trim ((blanks @ header # rest) ! n) = []"
    by (simp add: nth_append)
  from Suc.hyps(2) have "d = length blanks - Suc n" by simp
  from Suc.hyps(1) [OF this Suc.prems(1,2)] lt
  have "skipBlankLines (blanks @ header # rest) (Suc n) = Inr (length blanks)" by simp
  with b lt show ?case
    by (subst skipBlankLines.simps) simp
qed

lemma bodyLoop_blank:
  "trim line = [] \<Longrightarrow> bodyLoop isProp className (line # lines) blocks = bodyLoop isProp className lines blocks"
  by simp

lemma bodyLoop_failed:
  "trim line \<noteq> [] \<Longrightarrow>
   (if isProp then expandProperty (trim line) else expandMethod className (trim line)) = FailedResult m \<Longrightarrow>
   bodyLoop isProp className (line # lines) blocks = Inl (''>>> ERROR: '' @ toString m)"
  by (simp add: Let_def)

lemma bodyLoop_no_type:
  "trim line \<noteq> [] \<Longrightarrow>
   resultType (if isProp then expandProperty (trim line) else expandMethod className (trim line)) = None \<Longrightarrow>
   bodyLoop isProp className (line # lines) blocks = bodyLoop isProp className lines blocks"
  by (cases "if isProp then expandProperty (trim line) else expandMethod className (trim line)")
     (simp_all add: Let_def)

lemma bodyLoop_valid_then_failed:
  assumes "\<forall>l \<in> set valid. trim l \<noteq> [] \<and>
             resultType (if isProp then expandProperty (trim l) else expandMethod className (trim l)) = Some ''ok''"
    and "trim bad \<noteq> []"
    and "(if isProp then expandProperty (trim bad) else expandMethod className (trim bad)) = FailedResult m"
  shows "bodyLoop isProp className (valid @ bad # rest) blocks = Inl (''>>> ERROR: '' @ toString m)"
  using assms(1)
proof (induction valid arbitrary: blocks)
  case Nil
  from bodyLoop_failed [OF assms(2,3)] show ?case by simp
next
  case (Cons l ls)
  then have nb: "trim l \<noteq> []"
    and ok: "resultType (if isProp then expandProperty (trim l) else expandMethod className (trim l)) = Some ''ok''"
    by simp_all
  from ok obtain d n b t where
    "(if isProp then expandProperty (trim l) else expandMethod className (trim l)) = OkResult d n b t"
    by (cases "if isProp then expandProperty (trim l) else expandMethod className (trim l)") simp_all
  with nb Cons show ?case by (simp add: Let_def)
qed

lemma expandMethod_parse_failure:
  "parseMethodSignature signature = Inl e \<Longrightarrow> expandMethod className signature = FailedResult e"
  by (simp add: expandMethod_def)

lemma expandProperty_parse_failure:
  "parseMethodSignature signature = Inl e \<Longrightarrow> expandProperty signature = e"
  by (simp add: expandProperty_def)

text \<open>
  Claim C1 (fail-fast): when the body holds N valid signature lines followed by a line that
  the signature parser rejects, the whole output is the one line logged for that line;
  no fragment of the valid lines is printed and the lines after it are not looked at.
  In property mode the line is the parser's message; in operation mode the caught
  object is printed (see C2).  By \<open>parse_failure_shape\<close> every rejection has the form
  assumed here.
\<close>
theorem fail_fast:
  assumes lines: "split CHR ''\<newline>'' inputString = blanks @ header # valid @ bad # rest"
    and blanks: "\<forall>l \<in> set blanks. trim l = []"
    and header: "matchHeader header = Some (className, isProp)"
    and valid: "\<forall>l \<in> set valid. trim l \<noteq> [] \<and>
             resultType (if isProp then expandProperty (trim l) else expandMethod className (trim l)) = Some ''ok''"
    and bad: "trim bad \<noteq> []" "parseMethodSignature (trim bad) = Inl (FailedResult (Str message))"
  shows "process inputString =
           Returned [''>>> ERROR: '' @ (if isProp then message else ''[object Object]'')]"
proof -
  let ?lines = "blanks @ header # valid @ bad # rest"
  from header have "trim header \<noteq> []" by (rule matchHeader_nonblank)
  with blanks have skip: "skipBlankLines ?lines 0 = Inr (length blanks)"
    by (simp add: skipBlankLines_skip)
  have hd: "?lines ! length blanks = header" by simp
  have rest: "drop (length blanks + 1) ?lines = valid @ bad # rest" by simp
  have "(if isProp then expandProperty (trim bad) else expandMethod className (trim bad)) =
          FailedResult (if isProp then Str message else FailedResult (Str message))"
    using bad(2) by (simp add: expandMethod_parse_failure expandProperty_parse_failure)
  from bodyLoop_valid_then_failed [OF valid bad(1) this]
  have "bodyLoop isProp className (valid @ bad # rest)
          \<lparr>cppDeclaration = [], napiInitBlock = [], bodyBlock = [], tsBlock = []\<rparr> =
        Inl (''>>> ERROR: '' @ (if isProp then message else ''[object Object]''))"
    by simp
  with skip hd rest header show ?thesis
    unfolding process_def lines Let_def by simp
qed

text \<open>One run in each mode: a leading blank line, one valid line, the rejected line and,
  in operation mode, a further line.\<close>
theorem fail_fast_witness:
  "process ''\<newline>// CLASS: Foo\<newline>// TODO: int add(int a, int b)\<newline>// TODO: Frobnicator zap()\<newline>// TODO: bool isOn()'' =
     Returned [''>>> ERROR: [object Object]''] \<and>
   process ''// PROP: Foo\<newline>// TODO: bool isOn()\<newline>// TODO: void setOn(bool on\<newline>'' =
     Returned [''>>> ERROR: Signature didn't match regex for '' @ [CHR 0x27]
               @ ''// TODO: void setOn(bool on'' @ [CHR 0x27] @ ''.'']"
proof -
  have a1: "split CHR ''\<newline>'' ''\<newline>// CLASS: Foo\<newline>// TODO: int add(int a, int b)\<newline>// TODO: Frobnicator zap()\<newline>// TODO: bool isOn()'' =
              [[]] @ ''// CLASS: Foo'' # [''// TODO: int add(int a, int b)'']
              @ ''// TODO: Frobnicator zap()'' # [''// TODO: bool isOn()'']"
    by code_simp
  have a2: "\<forall>l \<in> set [[]]. trim l = []" by code_simp
  have a3: "matchHeader ''// CLASS: Foo'' = Some (''Foo'', False)" by code_simp
  have a4: "\<forall>l \<in> set [''// TODO: int add(int a, int b)'']. trim l \<noteq> [] \<and>
              resultType (if False then expandProperty (trim l) else expandMethod ''Foo'' (trim l)) = Some ''ok''"
    by code_simp
  have a5: "trim ''// TODO: Frobnicator zap()'' \<noteq> []" by code_simp
  have a6: "parseMethodSignature (trim ''// TODO: Frobnicator zap()'') =
              Inl (FailedResult (Str (''Return type '' @ [CHR 0x27] @ ''Frobnicator'' @ [CHR 0x27]
                 @ '' is unknown for signature '' @ [CHR 0x27] @ ''// TODO: Frobnicator zap()''
                 @ [CHR 0x27] @ ''.'')))"
    by code_simp
  have b1: "split CHR ''\<newline>'' ''// PROP: Foo\<newline>// TODO: bool isOn()\<newline>// TODO: void setOn(bool on\<newline>'' =
              [] @ ''// PROP: Foo'' # [''// TODO: bool isOn()'']
              @ ''// TODO: void setOn(bool on'' # [[]]"
    by code_simp
  have b2: "\<forall>l \<in> set ([] :: string list). trim l = []" by simp
  have b3: "matchHeader ''// PROP: Foo'' = Some (''Foo'', True)" by code_simp
  have b4: "\<forall>l \<in> set [''// TODO: bool isOn()'']. trim l \<noteq> [] \<and>
              resultType (if True then expandProperty (trim l) else expandMethod ''Foo'' (trim l)) = Some ''ok''"
    by code_simp
  have b5: "trim ''// TODO: void setOn(bool on'' \<noteq> []" by code_simp
  have b6: "parseMethodSignature (trim ''// TODO: void setOn(bool on'') =
              Inl (FailedResult (Str (''Signature didn't match regex for '' @ [CHR 0x27]
                 @ ''// TODO: void setOn(bool on'' @ [CHR 0x27] @ ''.'')))"
    by code_simp
  from fail_fast [OF a1 a2 a3 a4 a5 a6] fail_fast [OF b1 b2 b3 b4 b5 b6]
  show ?thesis by simp
qed

section \<open>Errors that are not failed-results\<close>

lemma mapCppToTSArgumentType_Inl:
  "mapCppToTSArgumentType t n = Inl e \<Longrightarrow> \<exists>m. e = JsError m"
  unfolding mapCppToTSArgumentType_def
  by (auto split: if_splits)

lemma mapCppToTsReturnType_Inl:
  "mapCppToTsReturnType t = Inl e \<Longrightarrow> \<exists>m. e = JsError m"
  unfolding mapCppToTsReturnType_def
  by (auto split: if_splits)

lemma tsParameters_Inl: "tsParameters args = Inl e \<Longrightarrow> \<exists>m. e = JsError m"
  by (induction args) (auto split: sum.splits dest: mapCppToTSArgumentType_Inl)

lemma tsHeader_Inl: "tsHeader m args r = Inl e \<Longrightarrow> \<exists>m. e = JsError m"
  by (auto simp: tsHeader_def Let_def split: sum.splits
      dest: tsParameters_Inl mapCppToTsReturnType_Inl)

lemma tsPropertyStatement_Inl:
  "tsPropertyStatement m args r = Inl e \<Longrightarrow> e = JsTypeError ''toLowerCase'' \<and> r = ''void'' \<and> length m < 4"
  unfolding tsPropertyStatement_def charAt_def
  by (auto split: if_splits option.splits)

lemma formatTSProperty_Inl:
  "formatTSProperty m args r = Inl e \<Longrightarrow> resultType e = None"
  by (auto simp: formatTSProperty_def split: sum.splits
      dest: tsHeader_Inl tsPropertyStatement_Inl)

lemma short_setter_name:
  "length m < 4 \<Longrightarrow> tsHeader m args ''void'' = Inr h \<Longrightarrow>
   formatTSProperty m args ''void'' = Inl (JsTypeError ''toLowerCase'')"
  by (simp add: formatTSProperty_def tsPropertyStatement_def charAt_def)

text \<open>
  Claim C10: in property mode, when \<open>formatTSProperty\<close> throws (an \<open>Error\<close> of the type
  mappings, or the \<open>TypeError\<close> of \<open>methodName[3].toLowerCase()\<close> for a void method whose
  name has fewer than four characters, see \<open>short_setter_name\<close>), \<open>expandProperty\<close>
  returns the thrown value itself; it has no \<open>type\<close>, so neither case of the driver's switch
  applies: the loop goes on with the next line and the fragment collections unchanged.
\<close>
theorem raw_error_skipped:
  assumes "trim line \<noteq> []"
    and "parseMethodSignature (trim line) = Inr parsed"
    and "formatTSProperty (sig_methodName parsed) (sig_args parsed) (sig_returnType parsed) = Inl e"
  shows "expandProperty (trim line) = e \<and> resultType e = None \<and>
         bodyLoop True className (line # lines) blocks = bodyLoop True className lines blocks"
proof -
  from assms(2,3) have e: "expandProperty (trim line) = e"
    by (simp add: expandProperty_def)
  from assms(3) have t: "resultType e = None" by (rule formatTSProperty_Inl)
  from e t have "resultType (if True then expandProperty (trim line)
                             else expandMethod className (trim line)) = None" by simp
  from bodyLoop_no_type [OF assms(1) this] e t show ?thesis by simp
qed

text \<open>The line \<open>// TODO: void ab()\<close> leaves no trace in the output.\<close>
theorem raw_error_skipped_witness:
  "parseMethodSignature ''// TODO: void ab()'' =
     Inr \<lparr>sig_args = [], sig_methodName = ''ab'', sig_returnType = ''void''\<rparr> \<and>
   formatTSProperty ''ab'' [] ''void'' = Inl (JsTypeError ''toLowerCase'') \<and>
   expandProperty ''// TODO: void ab()'' = JsTypeError ''toLowerCase'' \<and>
   bodyLoop True ''Foo'' [''// TODO: void ab()'', ''// TODO: bool isOn()'']
       \<lparr>cppDeclaration = [], napiInitBlock = [], bodyBlock = [], tsBlock = []\<rparr> =
     bodyLoop True ''Foo'' [''// TODO: bool isOn()'']
       \<lparr>cppDeclaration = [], napiInitBlock = [], bodyBlock = [], tsBlock = []\<rparr> \<and>
   process ''// PROP: Foo\<newline>// TODO: void ab()\<newline>// TODO: bool isOn()'' =
     Returned [''// CLASS: Foo'', sectionRule, ''// TS body'',
               ''    isOn(): boolean {\<newline>        return this.property('' @ [CHR 0x27] @ ''isOn''
               @ [CHR 0x27] @ '').toBool();\<newline>    }\<newline>'']"
proof -
  have t: "trim ''// TODO: void ab()'' = ''// TODO: void ab()''" by code_simp
  have h1: "trim ''// TODO: void ab()'' \<noteq> []" by code_simp
  have h2: "parseMethodSignature (trim ''// TODO: void ab()'') =
     Inr \<lparr>sig_args = [], sig_methodName = ''ab'', sig_returnType = ''void''\<rparr>" by code_simp
  have h3: "formatTSProperty
      (sig_methodName \<lparr>sig_args = [], sig_methodName = ''ab'', sig_returnType = ''void''\<rparr>)
      (sig_args \<lparr>sig_args = [], sig_methodName = ''ab'', sig_returnType = ''void''\<rparr>)
      (sig_returnType \<lparr>sig_args = [], sig_methodName = ''ab'', sig_returnType = ''void''\<rparr>) =
        Inl (JsTypeError ''toLowerCase'')" by code_simp
  have p: "process ''// PROP: Foo\<newline>// TODO: void ab()\<newline>// TODO: bool isOn()'' =
     Returned [''// CLASS: Foo'', sectionRule, ''// TS body'',
               ''    isOn(): boolean {\<newline>        return this.property('' @ [CHR 0x27] @ ''isOn''
               @ [CHR 0x27] @ '').toBool();\<newline>    }\<newline>'']" by code_simp
  from raw_error_skipped [OF h1 h2 h3, of "''Foo''" "[''// TODO: bool isOn()'']"
      "\<lparr>cppDeclaration = [], napiInitBlock = [], bodyBlock = [], tsBlock = []\<rparr>"] h2 h3 p
  show ?thesis unfolding t by simp
qed

section \<open>Fragments of the native emitter\<close>

lemma sublist_here: "sublist x (x @ r)"
  unfolding sublist_def by (rule exI [of _ "[]"]) simp

lemma sublist_skip_seg:
  assumes "sublist x r"
  shows "sublist x (l @ r)"
proof -
  from assms obtain ps ss where "r = ps @ x @ ss" by (auto simp: sublist_def)
  then have "l @ r = (l @ ps) @ x @ ss" by simp
  then show ?thesis unfolding sublist_def by blast
qed

lemma sublist_skip_char: "sublist x r \<Longrightarrow> sublist x (c # r)"
  using sublist_skip_seg [of x r "[c]"] by simp

lemma sublist_mid:
  assumes "suffix p a" and "prefix q b"
  shows "sublist (p @ x @ q) (a @ x @ b)"
proof -
  from assms obtain a' b' where "a = a' @ p" "b = q @ b'"
    by (auto simp: suffix_def prefix_def)
  then have "a @ x @ b = a' @ (p @ x @ q) @ b'" by simp
  then show ?thesis unfolding sublist_def by blast
qed

lemma cppArgumentStatement_name:
  assumes "cppArgumentStatement i arg = Inr s"
  shows "sublist (arg_name arg) s"
proof -
  define Q where "Q r = (case r of Inl e \<Rightarrow> True | Inr s \<Rightarrow> sublist (arg_name arg) s)"
    for r :: "jsval + string"
  have Q_if: "\<And>c x y. Q x \<Longrightarrow> Q y \<Longrightarrow> Q (if c then x else y)" by simp
  have Q_Inl: "\<And>e. Q (Inl e)" by (simp add: Q_def)
  have Q_Inr: "\<And>s. sublist (arg_name arg) s \<Longrightarrow> Q (Inr s)" by (simp add: Q_def)
  have "Q (cppArgumentStatement i arg)"
    unfolding cppArgumentStatement_def Let_def
    by (intro Q_if Q_Inl Q_Inr sublist_here sublist_skip_seg)
  with assms show ?thesis by (simp add: Q_def)
qed

lemma cppArgumentStatement_index:
  assumes "cppArgumentStatement i arg = Inr s"
  shows "sublist (''info['' @ showNat i @ '']'') s"
proof -
  define Q where "Q r = (case r of Inl e \<Rightarrow> True
      | Inr s \<Rightarrow> sublist (''info['' @ showNat i @ '']'') s)"
    for r :: "jsval + string"
  have Q_if: "\<And>c x y. Q x \<Longrightarrow> Q y \<Longrightarrow> Q (if c then x else y)" by simp
  have Q_Inl: "\<And>e. Q (Inl e)" by (simp add: Q_def)
  have Q_Inr: "\<And>s. sublist (''info['' @ showNat i @ '']'') s \<Longrightarrow> Q (Inr s)"
    by (simp add: Q_def)
  have "Q (cppArgumentStatement i arg)"
    unfolding cppArgumentStatement_def Let_def
    by (intro Q_if Q_Inl Q_Inr sublist_mid sublist_skip_seg)
       (simp_all add: suffix_Cons)
  with assms show ?thesis by (simp add: Q_def)
qed


lemma join_Nil: "join [] xs = concat xs"
  by (induction "[] :: string" xs rule: join.induct) simp_all

lemma cppArgumentLoop_Inr:
  "cppArgumentLoop i args acc = Inr body \<Longrightarrow>
   \<exists>statements. length statements = length args \<and>
     (\<forall>j < length args. cppArgumentStatement (i + j) (args ! j) = Inr (statements ! j)) \<and>
     body = acc @ concat (map (\<lambda>s. s @ ''\<newline>'') statements)"
proof (induction args arbitrary: i acc)
  case Nil
  then show ?case by simp
next
  case (Cons arg args)
  from Cons.prems obtain st where st: "cppArgumentStatement i arg = Inr st"
    and loop: "cppArgumentLoop (Suc i) args (acc @ st @ ''\<newline>'') = Inr body"
    by (auto split: sum.splits)
  from Cons.IH [OF loop] obtain sts where len: "length sts = length args"
    and each: "\<forall>j < length args. cppArgumentStatement (Suc i + j) (args ! j) = Inr (sts ! j)"
    and body: "body = (acc @ st @ ''\<newline>'') @ concat (map (\<lambda>s. s @ ''\<newline>'') sts)"
    by blast
  have "\<forall>j < length (arg # args). cppArgumentStatement (i + j) ((arg # args) ! j) = Inr ((st # sts) ! j)"
  proof (intro allI impI)
    fix j assume "j < length (arg # args)"
    then show "cppArgumentStatement (i + j) ((arg # args) ! j) = Inr ((st # sts) ! j)"
      using st each by (cases j) simp_all
  qed
  moreover have "length (st # sts) = length (arg # args)" using len by simp
  moreover have "body = acc @ concat (map (\<lambda>s. s @ ''\<newline>'') (st # sts))" using body by simp
  ultimately show ?case by blast
qed

lemma formatCppMethodBody_Inr:
  assumes "formatCppMethodBody className methodName args returnType = Inr methodBody"
  shows "\<exists>statements conversion. length statements = length args \<and>
     (\<forall>i < length args. cppArgumentStatement i (args ! i) = Inr (statements ! i)) \<and>
     cppReturnStatement returnType = Inr conversion \<and>
     methodBody =
       ''\<newline>Napi::Value '' @ className @ ''Wrap::'' @ methodName
       @ ''(const Napi::CallbackInfo& info) {\<newline>  Napi::Env env = info.Env();\<newline>''
       @ concat (map (\<lambda>s. s @ ''\<newline>'') statements)
       @ cppResultDeclaration returnType
       @ ''this->instance->'' @ methodName @ ''(''
       @ join '', '' (map cppInvocationArgument args) @ '');\<newline>''
       @ conversion @ ''\<newline>}\<newline>''"
proof -
  from assms obtain body conversion where
    loop: "cppArgumentLoop 0 args
             (''\<newline>Napi::Value '' @ className @ ''Wrap::'' @ methodName
              @ ''(const Napi::CallbackInfo& info) {\<newline>  Napi::Env env = info.Env();\<newline>'') = Inr body"
    and conv: "cppReturnStatement returnType = Inr conversion"
    and mb: "methodBody = body @ cppResultDeclaration returnType @ ''this->instance->'' @ methodName
               @ ''('' @ join '', '' (map cppInvocationArgument args) @ '');\<newline>''
               @ conversion @ ''\<newline>}\<newline>''"
    unfolding formatCppMethodBody_def Let_def
    by (auto split: sum.splits)
  from cppArgumentLoop_Inr [OF loop] obtain statements where
    "length statements = length args"
    "\<forall>j < length args. cppArgumentStatement (0 + j) (args ! j) = Inr (statements ! j)"
    "body = (''\<newline>Napi::Value '' @ className @ ''Wrap::'' @ methodName
              @ ''(const Napi::CallbackInfo& info) {\<newline>  Napi::Env env = info.Env();\<newline>'')
            @ concat (map (\<lambda>s. s @ ''\<newline>'') statements)"
    by blast
  with conv mb show ?thesis by (intro exI [of _ statements] exI [of _ conversion]) simp
qed

text \<open>
  Claim C3: for a parsed signature in operation mode whose native body is emitted, the
  invocation \<open>this->instance->name(...)\<close> of that body lists one expression per parsed
  argument, in the parsed order: \<open>*name\<close> when the argument's type is in
  \<open>DEREFERENCE_TYPES\<close>, the bare name otherwise.
\<close>
theorem invocation_arguments:
  assumes "parseMethodSignature signature = Inr parsed"
    and "formatCppMethodBody className (sig_methodName parsed) (sig_args parsed)
           (sig_returnType parsed) = Inr methodBody"
  shows "\<exists>before after invocation.
     length invocation = length (sig_args parsed) \<and>
     (\<forall>i < length (sig_args parsed).
        invocation ! i =
          (if arg_type (sig_args parsed ! i) \<in> set DEREFERENCE_TYPES
           then ''*'' @ arg_name (sig_args parsed ! i)
           else arg_name (sig_args parsed ! i))) \<and>
     cppArgumentLoop 0 (sig_args parsed)
        (''\<newline>Napi::Value '' @ className @ ''Wrap::'' @ sig_methodName parsed
         @ ''(const Napi::CallbackInfo& info) {\<newline>  Napi::Env env = info.Env();\<newline>'') = Inr before \<and>
     cppReturnStatement (sig_returnType parsed) = Inr after \<and>
     methodBody =
       before @ cppResultDeclaration (sig_returnType parsed)
       @ ''this->instance->'' @ sig_methodName parsed @ ''('' @ join '', '' invocation @ '');\<newline>''
       @ after @ ''\<newline>}\<newline>''"
proof -
  from assms(2) obtain before after where
    "cppArgumentLoop 0 (sig_args parsed)
        (''\<newline>Napi::Value '' @ className @ ''Wrap::'' @ sig_methodName parsed
         @ ''(const Napi::CallbackInfo& info) {\<newline>  Napi::Env env = info.Env();\<newline>'') = Inr before"
    "cppReturnStatement (sig_returnType parsed) = Inr after"
    "methodBody = before @ cppResultDeclaration (sig_returnType parsed)
       @ ''this->instance->'' @ sig_methodName parsed @ ''(''
       @ join '', '' (map cppInvocationArgument (sig_args parsed)) @ '');\<newline>''
       @ after @ ''\<newline>}\<newline>''"
    unfolding formatCppMethodBody_def Let_def by (auto split: sum.splits)
  then show ?thesis
    by (intro exI [of _ before] exI [of _ after]
          exI [of _ "map cppInvocationArgument (sig_args parsed)"])
       (simp add: cppInvocationArgument_def)
qed

text \<open>Two dereferenced arguments around a plain one.\<close>
theorem invocation_arguments_witness:
  "parseMethodSignature ''// TODO: void drawPixmap(const QPoint &p, int w, const QPixmap &pm)'' =
     Inr \<lparr>sig_args = [\<lparr>arg_type = ''const QPoint'', arg_name = ''p''\<rparr>,
                      \<lparr>arg_type = ''int'', arg_name = ''w''\<rparr>,
                      \<lparr>arg_type = ''const QPixmap'', arg_name = ''pm''\<rparr>],
          sig_methodName = ''drawPixmap'', sig_returnType = ''void''\<rparr> \<and>
   (\<exists>before after.
      formatCppMethodBody ''Foo'' ''drawPixmap''
        [\<lparr>arg_type = ''const QPoint'', arg_name = ''p''\<rparr>,
         \<lparr>arg_type = ''int'', arg_name = ''w''\<rparr>,
         \<lparr>arg_type = ''const QPixmap'', arg_name = ''pm''\<rparr>] ''void'' =
      Inr (before @ ''  this->instance->drawPixmap(*p, w, *pm);\<newline>'' @ after))"
proof -
  let ?parsed = "\<lparr>sig_args = [\<lparr>arg_type = ''const QPoint'', arg_name = ''p''\<rparr>,
                      \<lparr>arg_type = ''int'', arg_name = ''w''\<rparr>,
                      \<lparr>arg_type = ''const QPixmap'', arg_name = ''pm''\<rparr>],
          sig_methodName = ''drawPixmap'', sig_returnType = ''void''\<rparr>"
  have h1: "parseMethodSignature ''// TODO: void drawPixmap(const QPoint &p, int w, const QPixmap &pm)'' =
     Inr ?parsed" by code_simp
  obtain body where h2: "formatCppMethodBody ''Foo'' (sig_methodName ?parsed) (sig_args ?parsed)
      (sig_returnType ?parsed) = Inr body"
  proof -
    have "\<not> isl (formatCppMethodBody ''Foo'' (sig_methodName ?parsed) (sig_args ?parsed)
      (sig_returnType ?parsed))" by code_simp
    then show ?thesis using that
      by (cases "formatCppMethodBody ''Foo'' (sig_methodName ?parsed) (sig_args ?parsed)
                   (sig_returnType ?parsed)") simp_all
  qed
  from invocation_arguments [OF h1 h2] obtain before after invocation where
    len: "length invocation = length (sig_args ?parsed)" and
    nth: "\<forall>i < length (sig_args ?parsed). invocation ! i =
          (if arg_type (sig_args ?parsed ! i) \<in> set DEREFERENCE_TYPES
           then ''*'' @ arg_name (sig_args ?parsed ! i)
           else arg_name (sig_args ?parsed ! i))" and
    body: "body = before @ cppResultDeclaration (sig_returnType ?parsed)
       @ ''this->instance->'' @ sig_methodName ?parsed @ ''('' @ join '', '' invocation
       @ '');\<newline>'' @ after @ ''\<newline>}\<newline>''"
    by blast
  from len obtain a b c where inv: "invocation = [a, b, c]"
    by (auto simp: length_Suc_conv)
  from nth have "invocation ! 0 = ''*p''" "invocation ! 1 = ''w''" "invocation ! 2 = ''*pm''"
    by (simp_all add: DEREFERENCE_TYPES_def)
  with inv have "invocation = [''*p'', ''w'', ''*pm'']" by simp
  with body have "body = before @ ''  this->instance->drawPixmap(*p, w, *pm);\<newline>''
      @ (after @ ''\<newline>}\<newline>'')"
    by (simp add: cppResultDeclaration_def)
  with h1 h2 show ?thesis by auto
qed

section \<open>Agreement of the native fragments\<close>

lemma expandMethod_Ok:
  assumes "expandMethod className signature = OkResult d n b t"
  shows "\<exists>parsed methodBody tsBody.
    parseMethodSignature signature = Inr parsed \<and>
    formatCppMethodBody className (sig_methodName parsed) (sig_args parsed) (sig_returnType parsed)
      = Inr methodBody \<and>
    formatTSMethod (sig_methodName parsed) (sig_args parsed) (sig_returnType parsed) = Inr tsBody \<and>
    d = Some (''  Napi::Value '' @ sig_methodName parsed @ ''(const Napi::CallbackInfo& info);\<newline>'') \<and>
    n = Some (''       InstanceMethod('' @ [CHR 0x22] @ sig_methodName parsed @ [CHR 0x22] @ '', &''
              @ className @ ''Wrap::'' @ sig_methodName parsed @ ''),\<newline>'') \<and>
    b = Some methodBody \<and> t = Some tsBody"
  using assms unfolding expandMethod_def Let_def
  by (auto split: sum.splits)

text \<open>
  Claim C4: for a signature expanded in operation mode, the declaration fragment, the
  registration fragment and the native body are built around the same parsed method
  name; the body holds one extraction statement per parsed argument, in order (statement
  \<open>i\<close> is the rule of the switch for argument \<open>i\<close>: it reads \<open>info[i]\<close> and declares the
  argument's name), and the invocation passes one expression per parsed argument, in
  order, each the argument's name or its dereference.
\<close>
theorem native_fragments_agree:
  assumes "parseMethodSignature signature = Inr parsed"
    and "expandMethod className signature = OkResult methodDeclaration napiInit methodBody tsBody"
  shows "methodDeclaration =
           Some (''  Napi::Value '' @ sig_methodName parsed @ ''(const Napi::CallbackInfo& info);\<newline>'') \<and>
         napiInit =
           Some (''       InstanceMethod('' @ [CHR 0x22] @ sig_methodName parsed @ [CHR 0x22] @ '', &''
                 @ className @ ''Wrap::'' @ sig_methodName parsed @ ''),\<newline>'') \<and>
         (\<exists>statements invocation conversion.
            length statements = length (sig_args parsed) \<and>
            length invocation = length (sig_args parsed) \<and>
            (\<forall>i < length (sig_args parsed).
               cppArgumentStatement i (sig_args parsed ! i) = Inr (statements ! i) \<and>
               sublist (arg_name (sig_args parsed ! i)) (statements ! i) \<and>
               sublist (''info['' @ showNat i @ '']'') (statements ! i) \<and>
               (invocation ! i = arg_name (sig_args parsed ! i) \<or>
                invocation ! i = ''*'' @ arg_name (sig_args parsed ! i))) \<and>
            methodBody =
              Some (''\<newline>Napi::Value '' @ className @ ''Wrap::'' @ sig_methodName parsed
                    @ ''(const Napi::CallbackInfo& info) {\<newline>  Napi::Env env = info.Env();\<newline>''
                    @ concat (map (\<lambda>s. s @ ''\<newline>'') statements)
                    @ cppResultDeclaration (sig_returnType parsed)
                    @ ''this->instance->'' @ sig_methodName parsed @ ''(''
                    @ join '', '' invocation @ '');\<newline>''
                    @ conversion @ ''\<newline>}\<newline>''))"
proof -
  from expandMethod_Ok [OF assms(2)] assms(1) obtain body where
    body: "formatCppMethodBody className (sig_methodName parsed) (sig_args parsed)
             (sig_returnType parsed) = Inr body"
    and d: "methodDeclaration =
           Some (''  Napi::Value '' @ sig_methodName parsed @ ''(const Napi::CallbackInfo& info);\<newline>'')"
    and n: "napiInit =
           Some (''       InstanceMethod('' @ [CHR 0x22] @ sig_methodName parsed @ [CHR 0x22] @ '', &''
                 @ className @ ''Wrap::'' @ sig_methodName parsed @ ''),\<newline>'')"
    and b: "methodBody = Some body"
    by auto
  from formatCppMethodBody_Inr [OF body] obtain statements conversion where
    len: "length statements = length (sig_args parsed)"
    and each: "\<forall>i < length (sig_args parsed).
                 cppArgumentStatement i (sig_args parsed ! i) = Inr (statements ! i)"
    and eq: "body =
       ''\<newline>Napi::Value '' @ className @ ''Wrap::'' @ sig_methodName parsed
       @ ''(const Napi::CallbackInfo& info) {\<newline>  Napi::Env env = info.Env();\<newline>''
       @ concat (map (\<lambda>s. s @ ''\<newline>'') statements)
       @ cppResultDeclaration (sig_returnType parsed)
       @ ''this->instance->'' @ sig_methodName parsed @ ''(''
       @ join '', '' (map cppInvocationArgument (sig_args parsed)) @ '');\<newline>''
       @ conversion @ ''\<newline>}\<newline>''"
    by blast
  let ?inv = "map cppInvocationArgument (sig_args parsed)"
  have "\<forall>i < length (sig_args parsed).
               cppArgumentStatement i (sig_args parsed ! i) = Inr (statements ! i) \<and>
               sublist (arg_name (sig_args parsed ! i)) (statements ! i) \<and>
               sublist (''info['' @ showNat i @ '']'') (statements ! i) \<and>
               (?inv ! i = arg_name (sig_args parsed ! i) \<or>
                ?inv ! i = ''*'' @ arg_name (sig_args parsed ! i))"
  proof (intro allI impI)
    fix i assume "i < length (sig_args parsed)"
    with each have st: "cppArgumentStatement i (sig_args parsed ! i) = Inr (statements ! i)"
      by simp
    have "?inv ! i = arg_name (sig_args parsed ! i) \<or>
          ?inv ! i = ''*'' @ arg_name (sig_args parsed ! i)"
      using \<open>i < length (sig_args parsed)\<close> by (simp add: cppInvocationArgument_def)
    with st cppArgumentStatement_name [OF st] cppArgumentStatement_index [OF st]
    show "cppArgumentStatement i (sig_args parsed ! i) = Inr (statements ! i) \<and>
          sublist (arg_name (sig_args parsed ! i)) (statements ! i) \<and>
          sublist (''info['' @ showNat i @ '']'') (statements ! i) \<and>
          (?inv ! i = arg_name (sig_args parsed ! i) \<or>
           ?inv ! i = ''*'' @ arg_name (sig_args parsed ! i))"
      by (intro conjI)
  qed
  with len eq b have "\<exists>statements invocation conversion.
            length statements = length (sig_args parsed) \<and>
            length invocation = length (sig_args parsed) \<and>
            (\<forall>i < length (sig_args parsed).
               cppArgumentStatement i (sig_args parsed ! i) = Inr (statements ! i) \<and>
               sublist (arg_name (sig_args parsed ! i)) (statements ! i) \<and>
               sublist (''info['' @ showNat i @ '']'') (statements ! i) \<and>
               (invocation ! i = arg_name (sig_args parsed ! i) \<or>
                invocation ! i = ''*'' @ arg_name (sig_args parsed ! i))) \<and>
            methodBody =
              Some (''\<newline>Napi::Value '' @ className @ ''Wrap::'' @ sig_methodName parsed
                    @ ''(const Napi::CallbackInfo& info) {\<newline>  Napi::Env env = info.Env();\<newline>''
                    @ concat (map (\<lambda>s. s @ ''\<newline>'') statements)
                    @ cppResultDeclaration (sig_returnType parsed)
                    @ ''this->instance->'' @ sig_methodName parsed @ ''(''
                    @ join '', '' invocation @ '');\<newline>''
                    @ conversion @ ''\<newline>}\<newline>'')"
    by (intro exI [of _ statements] exI [of _ ?inv] exI [of _ conversion]) simp
  with d n show ?thesis by simp
qed

text \<open>The fragments of \<open>int add(int a, int b)\<close> in class \<open>Foo\<close>.\<close>
theorem native_fragments_agree_witness:
  "parseMethodSignature ''// TODO: int add(int a, int b)'' =
     Inr \<lparr>sig_args = [\<lparr>arg_type = ''int'', arg_name = ''a''\<rparr>, \<lparr>arg_type = ''int'', arg_name = ''b''\<rparr>],
          sig_methodName = ''add'', sig_returnType = ''int''\<rparr> \<and>
   expandMethod ''Foo'' ''// TODO: int add(int a, int b)'' =
     OkResult
       (Some ''  Napi::Value add(const Napi::CallbackInfo& info);\<newline>'')
       (Some (''       InstanceMethod('' @ [CHR 0x22] @ ''add'' @ [CHR 0x22] @ '', &FooWrap::add),\<newline>''))
       (Some ''\<newline>Napi::Value FooWrap::add(const Napi::CallbackInfo& info) {\<newline>  Napi::Env env = info.Env();\<newline>  int a = info[0].As<Napi::Number>().Int32Value();\<newline>  int b = info[1].As<Napi::Number>().Int32Value();\<newline>  int result = this->instance->add(a, b);\<newline>  return Napi::Number::New(env, result);\<newline>}\<newline>'')
       (Some ''    add(a: number, b: number): number {\<newline>        return this.native.add(a, b);\<newline>    }\<newline>'')"
proof -
  have h1: "parseMethodSignature ''// TODO: int add(int a, int b)'' =
     Inr \<lparr>sig_args = [\<lparr>arg_type = ''int'', arg_name = ''a''\<rparr>, \<lparr>arg_type = ''int'', arg_name = ''b''\<rparr>],
          sig_methodName = ''add'', sig_returnType = ''int''\<rparr>" by code_simp
  have h2: "expandMethod ''Foo'' ''// TODO: int add(int a, int b)'' =
     OkResult
       (Some ''  Napi::Value add(const Napi::CallbackInfo& info);\<newline>'')
       (Some (''       InstanceMethod('' @ [CHR 0x22] @ ''add'' @ [CHR 0x22] @ '', &FooWrap::add),\<newline>''))
       (Some ''\<newline>Napi::Value FooWrap::add(const Napi::CallbackInfo& info) {\<newline>  Napi::Env env = info.Env();\<newline>  int a = info[0].As<Napi::Number>().Int32Value();\<newline>  int b = info[1].As<Napi::Number>().Int32Value();\<newline>  int result = this->instance->add(a, b);\<newline>  return Napi::Number::New(env, result);\<newline>}\<newline>'')
       (Some ''    add(a: number, b: number): number {\<newline>        return this.native.add(a, b);\<newline>    }\<newline>'')"
    by code_simp
  from native_fragments_agree [OF h1 h2] h1 h2 show ?thesis by (intro conjI)
qed

section \<open>Property mode\<close>

lemma expandProperty_Ok:
  assumes "expandProperty signature = OkResult d n b t"
  shows "\<exists>parsed tsBody. parseMethodSignature signature = Inr parsed \<and>
     formatTSProperty (sig_methodName parsed) (sig_args parsed) (sig_returnType parsed) = Inr tsBody \<and>
     d = None \<and> n = None \<and> b = None \<and> t = Some tsBody"
proof (cases "parseMethodSignature signature")
  case (Inl e)
  with assms have "e = OkResult d n b t" by (simp add: expandProperty_def)
  with parse_failure_shape [OF Inl] show ?thesis by auto
next
  case (Inr parsed)
  show ?thesis
  proof (cases "formatTSProperty (sig_methodName parsed) (sig_args parsed) (sig_returnType parsed)")
    case (Inl e)
    with Inr assms have "e = OkResult d n b t" by (simp add: expandProperty_def)
    with formatTSProperty_Inl [OF Inl] show ?thesis by simp
  next
    case r: (Inr tsBody)
    with Inr assms show ?thesis by (simp add: expandProperty_def)
  qed
qed

text \<open>
  Claim C5: in property mode, the accessor emitted for a signature that returns \<open>void\<close>
  forwards to \<open>this.setProperty\<close> with a key made from the method name: the first three
  characters (the prefix \<open>set\<close> by convention) are dropped and the first remaining
  character is lower-cased; the arguments' names follow.
\<close>
theorem setter_property_key:
  assumes "parseMethodSignature signature = Inr parsed"
    and "sig_returnType parsed = ''void''"
    and "expandProperty signature = OkResult d n b tsBody"
  shows "\<exists>parameters c rest.
     tsParameters (sig_args parsed) = Inr parameters \<and>
     drop 3 (sig_methodName parsed) = c # rest \<and>
     tsBody = Some (''    '' @ formatTSMethodName (sig_methodName parsed) @ ''(''
                    @ join '', '' parameters @ ''): void {\<newline>''
                    @ ''this.setProperty('' @ [CHR 0x27] @ toLowerChar c # rest @ [CHR 0x27] @ '', ''
                    @ join '', '' (map arg_name (sig_args parsed)) @ '');\<newline>''
                    @ ''    }\<newline>'')"
proof -
  let ?m = "sig_methodName parsed" and ?args = "sig_args parsed"
  from expandProperty_Ok [OF assms(3)] assms(1,2) obtain ts where
    f: "formatTSProperty ?m ?args ''void'' = Inr ts" and t: "tsBody = Some ts"
    by auto
  from f obtain header statement where
    h: "tsHeader ?m ?args ''void'' = Inr header" and
    st: "tsPropertyStatement ?m ?args ''void'' = Inr statement" and
    ts: "ts = header @ statement @ ''    }\<newline>''"
    by (auto simp: formatTSProperty_def split: sum.splits)
  from h obtain parameters where
    ps: "tsParameters ?args = Inr parameters" and
    header: "header = ''    '' @ formatTSMethodName ?m @ ''('' @ join '', '' parameters
                      @ ''): void {\<newline>''"
    by (auto simp: tsHeader_def Let_def mapCppToTsReturnType_def split: sum.splits)
  from st have len: "3 < length ?m" and
    statement: "statement = ''this.setProperty('' @ [CHR 0x27] @ toLowerChar (?m ! 3) # drop 4 ?m
                  @ [CHR 0x27] @ '', '' @ join '', '' (map arg_name ?args) @ '');\<newline>''"
    by (auto simp: tsPropertyStatement_def charAt_def slice_def toLowerCase_def split: if_splits)
  from len have "drop 3 ?m = ?m ! 3 # drop (Suc 3) ?m"
    by (rule Cons_nth_drop_Suc [symmetric])
  moreover have "Suc 3 = (4::nat)" by simp
  ultimately have "drop 3 ?m = ?m ! 3 # drop 4 ?m" by simp
  with ps t ts header statement show ?thesis by simp
qed

text \<open>\<open>void setEnabled(bool enabled)\<close> sets the property \<open>enabled\<close>.\<close>
theorem setter_property_key_witness:
  "parseMethodSignature ''// TODO: void setEnabled(bool enabled)'' =
     Inr \<lparr>sig_args = [\<lparr>arg_type = ''bool'', arg_name = ''enabled''\<rparr>],
          sig_methodName = ''setEnabled'', sig_returnType = ''void''\<rparr> \<and>
   expandProperty ''// TODO: void setEnabled(bool enabled)'' =
     OkResult None None None
       (Some (''    setEnabled(enabled: boolean): void {\<newline>this.setProperty('' @ [CHR 0x27]
              @ ''enabled'' @ [CHR 0x27] @ '', enabled);\<newline>    }\<newline>'')) \<and>
   process ''// PROP: Foo\<newline>// TODO: void setEnabled(bool enabled)\<newline>'' =
     Returned [''// CLASS: Foo'', sectionRule, ''// TS body'',
               ''    setEnabled(enabled: boolean): void {\<newline>this.setProperty('' @ [CHR 0x27]
               @ ''enabled'' @ [CHR 0x27] @ '', enabled);\<newline>    }\<newline>'']"
proof -
  let ?parsed = "\<lparr>sig_args = [\<lparr>arg_type = ''bool'', arg_name = ''enabled''\<rparr>],
          sig_methodName = ''setEnabled'', sig_returnType = ''void''\<rparr>"
  have h1: "parseMethodSignature ''// TODO: void setEnabled(bool enabled)'' = Inr ?parsed"
    by code_simp
  have h2: "sig_returnType ?parsed = ''void''" by simp
  have h3: "expandProperty ''// TODO: void setEnabled(bool enabled)'' =
     OkResult None None None
       (Some (''    setEnabled(enabled: boolean): void {\<newline>this.setProperty('' @ [CHR 0x27]
              @ ''enabled'' @ [CHR 0x27] @ '', enabled);\<newline>    }\<newline>''))"
    by code_simp
  have p: "process ''// PROP: Foo\<newline>// TODO: void setEnabled(bool enabled)\<newline>'' =
     Returned [''// CLASS: Foo'', sectionRule, ''// TS body'',
               ''    setEnabled(enabled: boolean): void {\<newline>this.setProperty('' @ [CHR 0x27]
               @ ''enabled'' @ [CHR 0x27] @ '', enabled);\<newline>    }\<newline>'']"
    by code_simp
  from setter_property_key [OF h1 h2 h3] h1 h3 p show ?thesis by (intro conjI)
qed

section \<open>Output sections\<close>

lemma bodyLoop_property_blocks:
  "bodyLoop True className lines blocks = Inr blocks' \<Longrightarrow>
   cppDeclaration blocks' = cppDeclaration blocks \<and>
   napiInitBlock blocks' = napiInitBlock blocks \<and>
   bodyBlock blocks' = bodyBlock blocks"
proof (induction lines arbitrary: blocks)
  case Nil
  then show ?case by simp
next
  case (Cons line lines)
  show ?case
  proof (cases "trim line = []")
    case True
    with Cons show ?thesis by simp
  next
    case False
    show ?thesis
    proof (cases "expandProperty (trim line)")
      case (OkResult d n b t)
      from expandProperty_Ok [OF this] have "d = None" "n = None" "b = None" by auto
      with OkResult False Cons.prems
      have "bodyLoop True className lines
              \<lparr>cppDeclaration = cppDeclaration blocks, napiInitBlock = napiInitBlock blocks,
               bodyBlock = bodyBlock blocks, tsBlock = pushIfNotNull t (tsBlock blocks)\<rparr> = Inr blocks'"
        by (simp add: Let_def pushIfNotNull_def)
      from Cons.IH [OF this] show ?thesis by simp
    next
      case (FailedResult m)
      with False Cons.prems show ?thesis by (simp add: Let_def)
    next
      case (Str s)
      with False Cons show ?thesis by (simp add: Let_def)
    next
      case (JsError m)
      with False Cons show ?thesis by (simp add: Let_def)
    next
      case (JsTypeError p)
      with False Cons show ?thesis by (simp add: Let_def)
    qed
  qed
qed

text \<open>
  Claim C6 says that each of the four sections is printed only when its fragment
  collection is not empty.  The section \<open>// TS body\<close> is printed without such a test:
  a header with no body lines leaves every collection empty and still prints it.
\<close>
theorem typed_section_always_emitted:
  "bodyLoop False ''Foo'' (drop (0 + 1) (split CHR ''\<newline>'' ''// CLASS: Foo''))
     \<lparr>cppDeclaration = [], napiInitBlock = [], bodyBlock = [], tsBlock = []\<rparr> =
     Inr \<lparr>cppDeclaration = [], napiInitBlock = [], bodyBlock = [], tsBlock = []\<rparr> \<and>
   process ''// CLASS: Foo'' =
     Returned [''// CLASS: Foo'', sectionRule, ''// TS body'', []]"
  by code_simp

text \<open>
  Claim C6 as amended: when the header is found and the body loop ends without a
  failure, the output is the line \<open>// CLASS: name\<close>, then the declaration, registration
  and native-body sections, each printed exactly when its fragment collection is not
  empty, then the typed-API section, which is always printed; in property mode the
  three native collections stay empty, so only the typed-API section follows the first
  line.
\<close>
theorem output_sections:
  assumes "skipBlankLines (split CHR ''\<newline>'' inputString) 0 = Inr lineNumber"
    and "matchHeader (split CHR ''\<newline>'' inputString ! lineNumber) = Some (className, isProp)"
    and "bodyLoop isProp className (drop (lineNumber + 1) (split CHR ''\<newline>'' inputString))
           \<lparr>cppDeclaration = [], napiInitBlock = [], bodyBlock = [], tsBlock = []\<rparr> = Inr blocks"
  shows "process inputString =
           Returned ([''// CLASS: '' @ className]
             @ (if cppDeclaration blocks \<noteq> []
                then [sectionRule, ''// C++ declaration'', concat (cppDeclaration blocks), []] else [])
             @ (if napiInitBlock blocks \<noteq> []
                then [sectionRule, ''// Napi declaration'', concat (napiInitBlock blocks), []] else [])
             @ (if bodyBlock blocks \<noteq> []
                then [sectionRule, ''// C++ body'', concat (bodyBlock blocks), []] else [])
             @ [sectionRule, ''// TS body'', concat (tsBlock blocks)]) \<and>
         (isProp \<longrightarrow>
            cppDeclaration blocks = [] \<and> napiInitBlock blocks = [] \<and> bodyBlock blocks = [] \<and>
            process inputString =
              Returned [''// CLASS: '' @ className, sectionRule, ''// TS body'', concat (tsBlock blocks)])"
proof -
  from skipBlankLines_Inr [OF assms(1)]
  have "lineNumber \<noteq> length (split CHR ''\<newline>'' inputString)" by simp
  with assms have p: "process inputString = Returned (emitBlocks className blocks)"
    by (simp add: process_def Let_def)
  have e: "emitBlocks className blocks =
           [''// CLASS: '' @ className]
             @ (if cppDeclaration blocks \<noteq> []
                then [sectionRule, ''// C++ declaration'', concat (cppDeclaration blocks), []] else [])
             @ (if napiInitBlock blocks \<noteq> []
                then [sectionRule, ''// Napi declaration'', concat (napiInitBlock blocks), []] else [])
             @ (if bodyBlock blocks \<noteq> []
                then [sectionRule, ''// C++ body'', concat (bodyBlock blocks), []] else [])
             @ [sectionRule, ''// TS body'', concat (tsBlock blocks)]"
    by (simp add: emitBlocks_def join_Nil)
  have "cppDeclaration blocks = [] \<and> napiInitBlock blocks = [] \<and> bodyBlock blocks = []" if isProp
    using bodyLoop_property_blocks [of className _ _ blocks] assms(3) that by fastforce
  with p e show ?thesis by simp
qed

text \<open>One run in each mode.\<close>
theorem output_sections_witness:
  "process ''// CLASS: Foo\<newline>// TODO: int add(int a, int b)\<newline>'' =
     Returned
      [''// CLASS: Foo'',
       sectionRule, ''// C++ declaration'',
       ''  Napi::Value add(const Napi::CallbackInfo& info);\<newline>'', [],
       sectionRule, ''// Napi declaration'',
       ''       InstanceMethod('' @ [CHR 0x22] @ ''add'' @ [CHR 0x22] @ '', &FooWrap::add),\<newline>'', [],
       sectionRule, ''// C++ body'',
       ''\<newline>Napi::Value FooWrap::add(const Napi::CallbackInfo& info) {\<newline>  Napi::Env env = info.Env();\<newline>  int a = info[0].As<Napi::Number>().Int32Value();\<newline>  int b = info[1].As<Napi::Number>().Int32Value();\<newline>  int result = this->instance->add(a, b);\<newline>  return Napi::Number::New(env, result);\<newline>}\<newline>'', [],
       sectionRule, ''// TS body'',
       ''    add(a: number, b: number): number {\<newline>        return this.native.add(a, b);\<newline>    }\<newline>''] \<and>
   process ''// PROP: Foo\<newline>// TODO: bool isOn()'' =
     Returned [''// CLASS: Foo'', sectionRule, ''// TS body'',
               ''    isOn(): boolean {\<newline>        return this.property('' @ [CHR 0x27] @ ''isOn''
               @ [CHR 0x27] @ '').toBool();\<newline>    }\<newline>'']"
proof -
  let ?i1 = "''// CLASS: Foo\<newline>// TODO: int add(int a, int b)\<newline>''"
  let ?b1 = "\<lparr>cppDeclaration = [''  Napi::Value add(const Napi::CallbackInfo& info);\<newline>''],
     napiInitBlock = [''       InstanceMethod('' @ [CHR 0x22] @ ''add'' @ [CHR 0x22] @ '', &FooWrap::add),\<newline>''],
     bodyBlock = [''\<newline>Napi::Value FooWrap::add(const Napi::CallbackInfo& info) {\<newline>  Napi::Env env = info.Env();\<newline>  int a = info[0].As<Napi::Number>().Int32Value();\<newline>  int b = info[1].As<Napi::Number>().Int32Value();\<newline>  int result = this->instance->add(a, b);\<newline>  return Napi::Number::New(env, result);\<newline>}\<newline>''],
     tsBlock = [''    add(a: number, b: number): number {\<newline>        return this.native.add(a, b);\<newline>    }\<newline>'']\<rparr>"
  have a1: "skipBlankLines (split CHR ''\<newline>'' ?i1) 0 = Inr 0" by code_simp
  have a2: "matchHeader (split CHR ''\<newline>'' ?i1 ! 0) = Some (''Foo'', False)" by code_simp
  have a3: "bodyLoop False ''Foo'' (drop (0 + 1) (split CHR ''\<newline>'' ?i1))
           \<lparr>cppDeclaration = [], napiInitBlock = [], bodyBlock = [], tsBlock = []\<rparr> = Inr ?b1"
    by code_simp
  let ?i2 = "''// PROP: Foo\<newline>// TODO: bool isOn()''"
  let ?b2 = "\<lparr>cppDeclaration = [], napiInitBlock = [], bodyBlock = [],
     tsBlock = [''    isOn(): boolean {\<newline>        return this.property('' @ [CHR 0x27] @ ''isOn''
               @ [CHR 0x27] @ '').toBool();\<newline>    }\<newline>'']\<rparr>"
  have b1: "skipBlankLines (split CHR ''\<newline>'' ?i2) 0 = Inr 0" by code_simp
  have b2: "matchHeader (split CHR ''\<newline>'' ?i2 ! 0) = Some (''Foo'', True)" by code_simp
  have b3: "bodyLoop True ''Foo'' (drop (0 + 1) (split CHR ''\<newline>'' ?i2))
           \<lparr>cppDeclaration = [], napiInitBlock = [], bodyBlock = [], tsBlock = []\<rparr> = Inr ?b2"
    by code_simp
  from output_sections [OF a1 a2 a3] output_sections [OF b1 b2 b3]
  show ?thesis by simp
qed

section \<open>The diagnostic for blank input\<close>

text \<open>No input makes \<open>process\<close> print the line \<open>ERROR: No non-blank lines were found.\<close>:
  the branch that logs it cannot be reached.\<close>

lemma bodyLoop_Inl:
  "bodyLoop isProp className lines blocks = Inl failure \<Longrightarrow> take 4 failure = ''>>> ''"
proof (induction lines arbitrary: blocks)
  case Nil
  then show ?case by simp
next
  case (Cons line lines)
  show ?case
  proof (cases "trim line = []")
    case True
    with Cons show ?thesis by simp
  next
    case False
    with Cons show ?thesis
      by (cases "if isProp then expandProperty (trim line) else expandMethod className (trim line)")
         (auto simp: Let_def)
  qed
qed

lemma no_input_diagnostic_unreachable:
  "process inputString \<noteq> Returned [''ERROR: No non-blank lines were found.'']"
proof
  assume a: "process inputString = Returned [''ERROR: No non-blank lines were found.'']"
  show False
  proof (cases "skipBlankLines (split CHR ''\<newline>'' inputString) 0")
    case (Inl e)
    with a show False by (simp add: process_def)
  next
    case (Inr k)
    from skipBlankLines_Inr [OF Inr] have k: "k \<noteq> length (split CHR ''\<newline>'' inputString)" by simp
    show False
    proof (cases "matchHeader (split CHR ''\<newline>'' inputString ! k)")
      case None
      with a Inr k show False by (simp add: process_def)
    next
      case (Some h)
      obtain className isProp where h: "h = (className, isProp)" by (cases h)
      show False
      proof (cases "bodyLoop isProp className (drop (k + 1) (split CHR ''\<newline>'' inputString))
                      \<lparr>cppDeclaration = [], napiInitBlock = [], bodyBlock = [], tsBlock = []\<rparr>")
        case (Inl failure)
        from bodyLoop_Inl [OF Inl] a Inr k Some h Inl show False
          by (auto simp: process_def)
      next
        case r: (Inr blocks)
        with a Inr k Some h show False by (auto simp: process_def emitBlocks_def)
      qed
    qed
  qed
qed

end
